theory Spec2Isabelle
  imports Complex_Main "HOL-Library.Char_ord" "HOL-Library.List_Lexorder" "HOL-Library.Option_ord"
begin

section \<open>TrackIt 4.3: the study log, the configuration and the countdown\<close>

text \<open>
  The development embeds the non-GUI parts of \<^verbatim>\<open>TrackIt 4.3.py\<close>: the CSV logger
  (\<^verbatim>\<open>CSVLogger\<close>), the configuration loader (\<^verbatim>\<open>ConfigManager\<close>), the hour bucketing of
  \<^verbatim>\<open>plot_hourly_productivity_multiline\<close>, and the timer and goal callbacks of
  \<^verbatim>\<open>StudyTrackerApp\<close>.

  Conventions.
  \<^item> A Python exception is a value of type \<open>exn\<close>; a computation that may raise returns
    \<open>exn + 'a\<close> with \<open>Inl\<close> for the exception, or the state it has reached together with
    the exception that leaves it.
  \<^item> A Python \<^verbatim>\<open>float\<close> is a real number, plus or minus infinity, or not-a-number
    (\<open>pyfloat\<close>).  Arithmetic on the finite values is exact: the rounding of the binary
    format is outside the model.
  \<^item> The library parsers \<^verbatim>\<open>float(s)\<close>, \<^verbatim>\<open>int(s)\<close> and \<^verbatim>\<open>datetime.strptime\<close> and the printer
    \<^verbatim>\<open>repr\<close> of a \<^verbatim>\<open>float\<close> are parameters of the functions that call them (\<open>None\<close>
    stands for \<^verbatim>\<open>ValueError\<close>), so every theorem holds for whatever strings the library
    accepts.
  \<^item> A file is an \<open>option\<close>: \<open>None\<close> when \<^verbatim>\<open>os.path.exists\<close> is false.  The log file is a
    text; the functions that read it work on the list of records that \<^verbatim>\<open>csv.reader\<close>
    yields for the text, the header first.
  \<^item> A Python \<^verbatim>\<open>dict\<close> is an association list with distinct keys in insertion order.
  \<^item> Failures of the file system and of the widgets are outside the model.
\<close>

subsection \<open>Exceptions\<close>

datatype exn = ValueError | KeyError | TypeError | OverflowError | FileNotFoundError

definition bind_exn :: "exn + 'a \<Rightarrow> ('a \<Rightarrow> exn + 'b) \<Rightarrow> exn + 'b" where
  "bind_exn m f = (case m of Inl e \<Rightarrow> Inl e | Inr x \<Rightarrow> f x)"

subsection \<open>Floats\<close>

datatype pyfloat = Fin real | PosInf | NegInf | NaN

instantiation pyfloat :: "{zero, one, plus}"
begin

definition zero_pyfloat :: pyfloat where
  "zero_pyfloat = Fin 0"

definition one_pyfloat :: pyfloat where
  "one_pyfloat = Fin 1"

fun plus_pyfloat :: "pyfloat \<Rightarrow> pyfloat \<Rightarrow> pyfloat" where
  "plus_pyfloat (Fin a) (Fin b) = Fin (a + b)"
| "plus_pyfloat NaN y = NaN"
| "plus_pyfloat x NaN = NaN"
| "plus_pyfloat PosInf NegInf = NaN"
| "plus_pyfloat NegInf PosInf = NaN"
| "plus_pyfloat PosInf y = PosInf"
| "plus_pyfloat x PosInf = PosInf"
| "plus_pyfloat NegInf y = NegInf"
| "plus_pyfloat x NegInf = NegInf"

instance ..

end

instance pyfloat :: comm_monoid_add
proof
  fix x y z :: pyfloat
  show "0 + x = x"
    by (cases x) (simp_all add: zero_pyfloat_def)
  show "x + y = y + x"
    by (cases x; cases y) simp_all
  show "x + y + z = x + (y + z)"
    by (cases x; cases y; cases z) simp_all
qed

instance pyfloat :: numeral ..

definition is_finite :: "pyfloat \<Rightarrow> bool" where
  "is_finite x = (case x of Fin a \<Rightarrow> True | _ \<Rightarrow> False)"

definition round_half_even :: "real \<Rightarrow> int" where
  \<comment> \<open>rounding to the nearest integer, a tie going to the even neighbour\<close>
  "round_half_even x =
     (let f = \<lfloor>x\<rfloor>; d = x - of_int f
      in if d < 1 / 2 then f else if 1 / 2 < d then f + 1 else if even f then f else f + 1)"

definition py_round2 :: "pyfloat \<Rightarrow> pyfloat" where
  \<comment> \<open>\<^verbatim>\<open>round(x, 2)\<close>; an infinity and not-a-number are returned as they are\<close>
  "py_round2 x = (case x of Fin a \<Rightarrow> Fin (of_int (round_half_even (a * 100)) / 100) | _ \<Rightarrow> x)"

definition py_int :: "pyfloat \<Rightarrow> exn + int" where
  \<comment> \<open>\<^verbatim>\<open>int(x)\<close> for a \<^verbatim>\<open>float\<close>: truncation towards zero\<close>
  "py_int x =
     (case x of Fin a \<Rightarrow> Inr (if 0 \<le> a then \<lfloor>a\<rfloor> else \<lceil>a\<rceil>)
      | NaN \<Rightarrow> Inl ValueError | _ \<Rightarrow> Inl OverflowError)"

definition py_mul60 :: "pyfloat \<Rightarrow> pyfloat" where
  \<comment> \<open>\<^verbatim>\<open>x * 60\<close>\<close>
  "py_mul60 x = (case x of Fin a \<Rightarrow> Fin (a * 60) | _ \<Rightarrow> x)"

definition py_floordiv60 :: "pyfloat \<Rightarrow> pyfloat" where
  \<comment> \<open>\<^verbatim>\<open>x // 60\<close>: not-a-number for an infinity\<close>
  "py_floordiv60 x = (case x of Fin a \<Rightarrow> Fin (of_int \<lfloor>a / 60\<rfloor>) | _ \<Rightarrow> NaN)"

definition py_mod60 :: "pyfloat \<Rightarrow> pyfloat" where
  \<comment> \<open>\<^verbatim>\<open>x % 60\<close>\<close>
  "py_mod60 x = (case x of Fin a \<Rightarrow> Fin (a - 60 * of_int \<lfloor>a / 60\<rfloor>) | _ \<Rightarrow> NaN)"

definition py_positive :: "pyfloat \<Rightarrow> bool" where
  \<comment> \<open>\<^verbatim>\<open>x > 0\<close>\<close>
  "py_positive x = (case x of Fin a \<Rightarrow> 0 < a | PosInf \<Rightarrow> True | _ \<Rightarrow> False)"

definition py_truediv :: "pyfloat \<Rightarrow> pyfloat \<Rightarrow> pyfloat" where
  \<comment> \<open>\<^verbatim>\<open>x / y\<close> for a positive \<open>y\<close>\<close>
  "py_truediv x y =
     (case (x, y) of
        (Fin a, Fin b) \<Rightarrow> Fin (a / b)
      | (Fin a, _) \<Rightarrow> (if y = NaN then NaN else Fin 0)
      | (PosInf, Fin b) \<Rightarrow> PosInf
      | (NegInf, Fin b) \<Rightarrow> NegInf
      | _ \<Rightarrow> NaN)"

subsection \<open>Reading the log with \<^verbatim>\<open>csv.DictReader\<close>\<close>

text \<open>
  A cell of a \<^verbatim>\<open>DictReader\<close> row is a string, or \<^verbatim>\<open>None\<close> (the default \<^verbatim>\<open>restval\<close>) when
  the record is shorter than the header.  A row maps each header name to its cell; a name
  that is not in the header is not a key of the row.  (The extra key \<^verbatim>\<open>None\<close> that collects
  surplus fields is never looked up by the program and is left out.)
\<close>

type_synonym cell = "string option"
type_synonym row = "string \<Rightarrow> cell option"
type_synonym csv_file = "string list list"

definition dict_row :: "string list \<Rightarrow> string list \<Rightarrow> row" where
  \<comment> \<open>\<^verbatim>\<open>dict(zip(fieldnames, row))\<close>, then \<^verbatim>\<open>d[key] = None\<close> for \<^verbatim>\<open>fieldnames[len(row):]\<close>;
      a later duplicate of a header name overrides an earlier one\<close>
  "dict_row fieldnames r =
     map_of (rev (zip fieldnames (map Some r @ replicate (length fieldnames - length r) None)))"

definition DictReader :: "csv_file \<Rightarrow> row list" where
  \<comment> \<open>the first record is the header; empty records are skipped\<close>
  "DictReader recs =
     (case recs of [] \<Rightarrow> []
      | fieldnames # rest \<Rightarrow> map (dict_row fieldnames) (filter (\<lambda>r. r \<noteq> []) rest))"

definition getitem :: "row \<Rightarrow> string \<Rightarrow> exn + cell" where
  \<comment> \<open>\<^verbatim>\<open>row[key]\<close>\<close>
  "getitem r k = (case r k of None \<Rightarrow> Inl KeyError | Some c \<Rightarrow> Inr c)"

definition py_float :: "(string \<Rightarrow> pyfloat option) \<Rightarrow> cell \<Rightarrow> exn + pyfloat" where
  \<comment> \<open>\<^verbatim>\<open>float(c)\<close>: \<^verbatim>\<open>TypeError\<close> on \<^verbatim>\<open>None\<close>, \<^verbatim>\<open>ValueError\<close> on a string that does not parse\<close>
  "py_float pf c =
     (case c of None \<Rightarrow> Inl TypeError
      | Some s \<Rightarrow> (case pf s of None \<Rightarrow> Inl ValueError | Some x \<Rightarrow> Inr x))"

definition skipped :: "exn \<Rightarrow> bool" where
  \<comment> \<open>\<^verbatim>\<open>except (ValueError, KeyError)\<close>\<close>
  "skipped e = (e = ValueError \<or> e = KeyError)"

subsection \<open>A sample of \<^verbatim>\<open>float(s)\<close>\<close>

text \<open>
  For concrete inputs: the plain decimal numerals (an optional minus sign, digits, an
  optional point followed by digits), on which \<^verbatim>\<open>float\<close> returns the number written, and
  the words \<^verbatim>\<open>nan\<close>, \<^verbatim>\<open>inf\<close> and \<^verbatim>\<open>-inf\<close>.
\<close>

definition digit_val :: "char \<Rightarrow> nat option" where
  "digit_val c =
     (let n = of_char c :: nat in if 48 \<le> n \<and> n \<le> 57 then Some (n - 48) else None)"

fun digits_val :: "nat \<Rightarrow> string \<Rightarrow> nat option" where
  "digits_val acc [] = Some acc"
| "digits_val acc (c # cs) =
     (case digit_val c of None \<Rightarrow> None | Some d \<Rightarrow> digits_val (10 * acc + d) cs)"

definition unsigned_dec :: "string \<Rightarrow> real option" where
  "unsigned_dec s =
     (let ip = takeWhile (\<lambda>c. c \<noteq> CHR ''.'') s; rest = dropWhile (\<lambda>c. c \<noteq> CHR ''.'') s
      in if ip = [] then None
         else (case digits_val 0 ip of None \<Rightarrow> None
               | Some i \<Rightarrow>
                  (case rest of [] \<Rightarrow> Some (real i)
                   | _ # fp \<Rightarrow>
                      (if fp = [] then None
                       else (case digits_val 0 fp of None \<Rightarrow> None
                             | Some f \<Rightarrow> Some (real i + real f / 10 ^ length fp))))))"

definition float_dec :: "string \<Rightarrow> pyfloat option" where
  "float_dec s =
     (if s = ''nan'' then Some NaN
      else if s = ''inf'' then Some PosInf
      else if s = ''-inf'' then Some NegInf
      else (case s of [] \<Rightarrow> None
            | c # cs \<Rightarrow>
                if c = CHR ''-'' then map_option (\<lambda>x. Fin (- x)) (unsigned_dec cs)
                else map_option Fin (unsigned_dec s)))"

subsection \<open>\<^verbatim>\<open>CSVLogger.get_today_minutes\<close>\<close>

fun today_loop :: "(string \<Rightarrow> pyfloat option) \<Rightarrow> string \<Rightarrow> row list \<Rightarrow> pyfloat \<Rightarrow> exn + pyfloat" where
  "today_loop pf today [] tot = Inr tot"
| "today_loop pf today (r # rows) tot =
     (case getitem r ''date'' of
        Inl e \<Rightarrow> Inl e
      | Inr d \<Rightarrow>
          if d = Some today then
            (case bind_exn (getitem r ''minutes'') (py_float pf) of
               Inl e \<Rightarrow> if skipped e then today_loop pf today rows tot else Inl e
             | Inr x \<Rightarrow> today_loop pf today rows (tot + x))
          else today_loop pf today rows tot)"

definition get_today_minutes :: "(string \<Rightarrow> pyfloat option) \<Rightarrow> string \<Rightarrow> csv_file option \<Rightarrow> pyfloat" where
  \<comment> \<open>\<open>today\<close> is \<^verbatim>\<open>str(datetime.now().date())\<close>; the outer handler turns every exception into 0\<close>
  "get_today_minutes pf today logf =
     (case logf of None \<Rightarrow> 0
      | Some recs \<Rightarrow>
          (case today_loop pf today (DictReader recs) 0 of Inl e \<Rightarrow> 0 | Inr tot \<Rightarrow> tot))"

subsection \<open>\<^verbatim>\<open>CSVLogger.get_weekly_data\<close> and \<^verbatim>\<open>CSVLogger.get_all_data\<close>\<close>

type_synonym subject_totals = "(cell \<times> pyfloat) list"
type_synonym log_data = "(cell \<times> subject_totals) list"

fun dd_add :: "'k \<Rightarrow> pyfloat \<Rightarrow> ('k \<times> pyfloat) list \<Rightarrow> ('k \<times> pyfloat) list" where
  \<comment> \<open>\<^verbatim>\<open>d[k] += v\<close> on a \<^verbatim>\<open>defaultdict(float)\<close>\<close>
  "dd_add k v [] = [(k, 0 + v)]"
| "dd_add k v ((k', x) # d) = (if k' = k then (k', x + v) # d else (k', x) # dd_add k v d)"

fun data_add ::
  "'d \<Rightarrow> 'k \<Rightarrow> pyfloat \<Rightarrow> ('d \<times> ('k \<times> pyfloat) list) list \<Rightarrow> ('d \<times> ('k \<times> pyfloat) list) list" where
  \<comment> \<open>\<^verbatim>\<open>data[date][subject] += minutes\<close> on a \<^verbatim>\<open>defaultdict\<close> of \<^verbatim>\<open>defaultdict(float)\<close>\<close>
  "data_add dt s v [] = [(dt, dd_add s v [])]"
| "data_add dt s v ((dt', m) # data) =
     (if dt' = dt then (dt', dd_add s v m) # data else (dt', m) # data_add dt s v data)"

definition read_entry :: "(string \<Rightarrow> pyfloat option) \<Rightarrow> row \<Rightarrow> exn + (cell \<times> cell \<times> pyfloat)" where
  \<comment> \<open>the three reads of the loop body, in the source's order\<close>
  "read_entry pf r =
     bind_exn (getitem r ''date'') (\<lambda>date.
     bind_exn (getitem r ''subject'') (\<lambda>subject.
     bind_exn (bind_exn (getitem r ''minutes'') (py_float pf)) (\<lambda>minutes.
     Inr (date, subject, minutes))))"

fun weekly_loop :: "(string \<Rightarrow> pyfloat option) \<Rightarrow> row list \<Rightarrow> log_data \<Rightarrow> exn + log_data" where
  "weekly_loop pf [] data = Inr data"
| "weekly_loop pf (r # rows) data =
     (case read_entry pf r of
        Inl e \<Rightarrow> if skipped e then weekly_loop pf rows data else Inl e
      | Inr (date, subject, minutes) \<Rightarrow> weekly_loop pf rows (data_add date subject minutes data))"

definition get_weekly_data :: "(string \<Rightarrow> pyfloat option) \<Rightarrow> csv_file option \<Rightarrow> log_data" where
  "get_weekly_data pf logf =
     (case logf of None \<Rightarrow> []
      | Some recs \<Rightarrow> (case weekly_loop pf (DictReader recs) [] of Inl e \<Rightarrow> [] | Inr data \<Rightarrow> data))"

fun all_loop :: "(string \<Rightarrow> pyfloat option) \<Rightarrow> row list \<Rightarrow> log_data \<Rightarrow> exn + log_data" where
  "all_loop pf [] data = Inr data"
| "all_loop pf (r # rows) data =
     (case read_entry pf r of
        Inl e \<Rightarrow> if skipped e then all_loop pf rows data else Inl e
      | Inr (date, subject, minutes) \<Rightarrow> all_loop pf rows (data_add date subject minutes data))"

definition get_all_data :: "(string \<Rightarrow> pyfloat option) \<Rightarrow> csv_file option \<Rightarrow> log_data" where
  "get_all_data pf logf =
     (case logf of None \<Rightarrow> []
      | Some recs \<Rightarrow> (case all_loop pf (DictReader recs) [] of Inl e \<Rightarrow> [] | Inr data \<Rightarrow> data))"

subsection \<open>Well-formed rows and the totals they determine\<close>

text \<open>
  What the claims say of the rows, written on the cells of a row and not through the
  functions above.  A row is well-formed when its date and subject cells are there and
  its minutes cell is a string that parses as a float.
\<close>

definition dated :: "string \<Rightarrow> row \<Rightarrow> bool" where
  \<comment> \<open>the date field of the row is the given date\<close>
  "dated today r = (r ''date'' = Some (Some today))"

definition truncated :: "row \<Rightarrow> bool" where
  \<comment> \<open>the record ends before the minutes column: the cell is \<^verbatim>\<open>None\<close>\<close>
  "truncated r = (r ''minutes'' = Some None)"

definition minutes_of :: "(string \<Rightarrow> pyfloat option) \<Rightarrow> row \<Rightarrow> pyfloat option" where
  \<comment> \<open>the minutes of a row whose minutes field is there and parses\<close>
  "minutes_of pf r = (case r ''minutes'' of Some (Some s) \<Rightarrow> pf s | _ \<Rightarrow> None)"

definition entry_of :: "(string \<Rightarrow> pyfloat option) \<Rightarrow> row \<Rightarrow> (cell \<times> cell \<times> pyfloat) option" where
  \<comment> \<open>date, subject and minutes of a well-formed row\<close>
  "entry_of pf r =
     (case (r ''date'', r ''subject'', minutes_of pf r) of
        (Some dt, Some s, Some x) \<Rightarrow> Some (dt, s, x)
      | _ \<Rightarrow> None)"

definition entries :: "(string \<Rightarrow> pyfloat option) \<Rightarrow> row list \<Rightarrow> (cell \<times> cell \<times> pyfloat) list" where
  \<comment> \<open>the well-formed rows, in the order of the file\<close>
  "entries pf rows = List.map_filter (entry_of pf) rows"

definition minutes_for :: "cell \<Rightarrow> cell \<Rightarrow> (cell \<times> cell \<times> pyfloat) list \<Rightarrow> pyfloat list" where
  \<comment> \<open>the minutes of the entries with the given date and subject\<close>
  "minutes_for dt s es = map (\<lambda>(dt', s', v). v) (filter (\<lambda>(dt', s', v). dt' = dt \<and> s' = s) es)"

definition lookup2 :: "('d \<times> ('k \<times> pyfloat) list) list \<Rightarrow> 'd \<Rightarrow> 'k \<Rightarrow> pyfloat option" where
  \<comment> \<open>the entry \<^verbatim>\<open>data[dt][s]\<close>, if there is one\<close>
  "lookup2 data dt s = (case map_of data dt of None \<Rightarrow> None | Some m \<Rightarrow> map_of m s)"

definition total_of :: "pyfloat list \<Rightarrow> pyfloat option" where
  \<comment> \<open>the entry that a list of minutes adds up to: none for no row\<close>
  "total_of xs = (if xs = [] then None else Some (sum_list xs))"

definition seven_largest :: "cell list \<Rightarrow> cell list" where
  \<comment> \<open>the glossary's weekly window: the seven largest distinct dates\<close>
  "seven_largest ds = (let xs = sort (remdups ds) in drop (length xs - 7) xs)"

definition file_dates :: "csv_file \<Rightarrow> cell list" where
  \<comment> \<open>the date cells occurring in the file\<close>
  "file_dates recs = List.map_filter (\<lambda>r. r ''date'') (DictReader recs)"

definition LOG_HEADER :: "string list" where
  \<comment> \<open>the header that \<^verbatim>\<open>CSVLogger.__init__\<close> writes\<close>
  "LOG_HEADER = [''date'', ''timestamp'', ''subject'', ''minutes'']"

fun add_entries :: "(cell \<times> cell \<times> pyfloat) list \<Rightarrow> log_data \<Rightarrow> log_data" where
  \<comment> \<open>one update of the mapping per entry\<close>
  "add_entries [] data = data"
| "add_entries ((dt, s, v) # es) data = add_entries es (data_add dt s v data)"

text \<open>A log with rows on eight distinct dates.\<close>

definition eight_days :: csv_file where
  "eight_days =
     [LOG_HEADER,
      [''2024-05-01'', ''09:00:00'', ''Math'', ''30''],
      [''2024-05-02'', ''09:00:00'', ''Math'', ''30''],
      [''2024-05-03'', ''09:00:00'', ''Math'', ''30''],
      [''2024-05-04'', ''09:00:00'', ''Math'', ''30''],
      [''2024-05-05'', ''09:00:00'', ''Math'', ''30''],
      [''2024-05-06'', ''09:00:00'', ''Math'', ''30''],
      [''2024-05-07'', ''09:00:00'', ''Math'', ''30''],
      [''2024-05-08'', ''09:00:00'', ''Math'', ''30''],
      [''2024-05-08'', ''10:00:00'', ''Math'', ''12.5'']]"

text \<open>A log with a well-formed row and a row that ends before the minutes column.\<close>

definition short_row_log :: csv_file where
  "short_row_log =
     [LOG_HEADER, [''2024-05-01'', ''09:00:00'', ''Math'', ''30''], [''2024-05-01'', ''10:00:00'']]"

subsection \<open>\<^verbatim>\<open>ConfigManager\<close>\<close>

datatype json = JNull | JBool bool | JInt int | JFloat pyfloat | JString string
  | JArray "json list" | JObject "(string \<times> json) list"

text \<open>
  The configuration file: missing, unreadable (\<^verbatim>\<open>open\<close> or \<^verbatim>\<open>json.load\<close> raises), or holding
  a JSON value.  The fields of \<^verbatim>\<open>ConfigManager\<close> hold whatever JSON value the file gives.
\<close>

datatype config_file = NoFile | Corrupt | Content json

record ConfigManager =
  subjects :: json
  daily_goal :: json
  theme :: json

definition DEFAULT_SUBJECTS :: json where
  "DEFAULT_SUBJECTS = JArray [JString ''Math'', JString ''Physics'', JString ''Chemistry'']"

definition DEFAULT_DAILY_GOAL :: json where
  "DEFAULT_DAILY_GOAL = JInt 690"

definition json_dict :: "(string \<times> json) list \<Rightarrow> string \<Rightarrow> json option" where
  \<comment> \<open>the \<^verbatim>\<open>dict\<close> that \<^verbatim>\<open>json.load\<close> builds from an object: the last of equal keys wins\<close>
  "json_dict kvs = map_of (rev kvs)"

definition dict_get :: "(string \<times> json) list \<Rightarrow> string \<Rightarrow> json \<Rightarrow> json" where
  \<comment> \<open>\<^verbatim>\<open>config.get(k, dflt)\<close>\<close>
  "dict_get kvs k dflt = (case json_dict kvs k of None \<Rightarrow> dflt | Some v \<Rightarrow> v)"

definition config_defaults :: ConfigManager where
  "config_defaults =
     \<lparr>subjects = DEFAULT_SUBJECTS, daily_goal = DEFAULT_DAILY_GOAL, theme = JString ''system''\<rparr>"

definition load_config :: "ConfigManager \<Rightarrow> config_file \<Rightarrow> ConfigManager" where
  \<comment> \<open>a value that is not an object raises \<^verbatim>\<open>ValueError\<close>; the handler resets the fields\<close>
  "load_config self cf =
     (case cf of
        NoFile \<Rightarrow> self
      | Corrupt \<Rightarrow> config_defaults
      | Content config \<Rightarrow>
          (case config of
             JObject kvs \<Rightarrow>
               self\<lparr>subjects := dict_get kvs ''subjects'' DEFAULT_SUBJECTS,
                    daily_goal := dict_get kvs ''daily_goal'' DEFAULT_DAILY_GOAL,
                    theme := dict_get kvs ''theme'' (JString ''system'')\<rparr>
           | _ \<Rightarrow> config_defaults))"

definition ConfigManager_init :: "config_file \<Rightarrow> ConfigManager" where
  \<comment> \<open>\<^verbatim>\<open>__init__\<close>: the defaults, then \<^verbatim>\<open>load_config\<close>\<close>
  "ConfigManager_init cf = load_config config_defaults cf"

definition is_object :: "json \<Rightarrow> bool" where
  "is_object j = (case j of JObject kvs \<Rightarrow> True | _ \<Rightarrow> False)"

subsection \<open>Formatting numbers and the clock\<close>

text \<open>
  \<^verbatim>\<open>datetime.now()\<close> is a parameter of the functions that read the clock.  Its fields are
  those of a valid \<^verbatim>\<open>datetime\<close> (a year of at most four digits, the other fields of at most
  two), for which the fixed-width forms below are what \<^verbatim>\<open>str(now.date())\<close> and
  \<^verbatim>\<open>now.strftime("%H:%M:%S")\<close> print.
\<close>

record datetime =
  dt_year :: nat
  dt_month :: nat
  dt_day :: nat
  dt_hour :: nat
  dt_minute :: nat
  dt_second :: nat

definition digit_char :: "nat \<Rightarrow> char" where
  "digit_char n = ''0123456789'' ! (n mod 10)"

definition show2 :: "nat \<Rightarrow> string" where
  \<comment> \<open>\<^verbatim>\<open>"%02d"\<close> on a number below 100\<close>
  "show2 n = [digit_char (n div 10), digit_char n]"

definition show4 :: "nat \<Rightarrow> string" where
  \<comment> \<open>\<^verbatim>\<open>"%04d"\<close> on a number below 10000\<close>
  "show4 n = [digit_char (n div 1000), digit_char (n div 100), digit_char (n div 10), digit_char n]"

definition str_date :: "datetime \<Rightarrow> string" where
  \<comment> \<open>\<^verbatim>\<open>str(now.date())\<close>\<close>
  "str_date now = show4 (dt_year now) @ ''-'' @ show2 (dt_month now) @ ''-'' @ show2 (dt_day now)"

definition strftime_HMS :: "datetime \<Rightarrow> string" where
  \<comment> \<open>\<^verbatim>\<open>now.strftime("%H:%M:%S")\<close>\<close>
  "strftime_HMS now =
     show2 (dt_hour now) @ '':'' @ show2 (dt_minute now) @ '':'' @ show2 (dt_second now)"

fun str_nat :: "nat \<Rightarrow> string" where
  "str_nat n = (if n < 10 then [digit_char n] else str_nat (n div 10) @ [digit_char n])"

definition str_int :: "int \<Rightarrow> string" where
  \<comment> \<open>\<^verbatim>\<open>str(i)\<close> for an \<^verbatim>\<open>int\<close>\<close>
  "str_int i = (if i < 0 then CHR ''-'' # str_nat (nat (- i)) else str_nat (nat i))"

subsection \<open>The text of the log: \<^verbatim>\<open>csv.writer\<close> and \<^verbatim>\<open>csv.reader\<close>\<close>

text \<open>
  The log is opened with \<^verbatim>\<open>newline=''\<close> and the default dialect: the delimiter is a comma,
  the quote character is the double quote, a quote inside a quoted field is doubled, the
  writer ends a record with carriage return and line feed and quotes a field only when it
  holds a delimiter, a quote or a line break.  The reader is the state machine of the
  \<^verbatim>\<open>csv\<close> module, run over the characters of the text; the state \<open>AFTER_CR\<close> stands for
  the line iterator of the file, for which a line feed after a carriage return belongs to
  the same line break.  (The limit on the length of a field is outside the model.)
\<close>

definition CR :: char where "CR = CHR 0x0D"
definition LF :: char where "LF = CHR 0x0A"
definition DQUOTE :: char where "DQUOTE = CHR 0x22"
definition COMMA :: char where "COMMA = CHR 0x2C"

definition is_newline :: "char \<Rightarrow> bool" where
  "is_newline c = (c = CR \<or> c = LF)"

definition special :: "char \<Rightarrow> bool" where
  \<comment> \<open>the characters that make the writer quote a field\<close>
  "special c = (c = COMMA \<or> c = DQUOTE \<or> is_newline c)"

definition escape_quotes :: "string \<Rightarrow> string" where
  "escape_quotes f = concat (map (\<lambda>c. if c = DQUOTE then [DQUOTE, DQUOTE] else [c]) f)"

definition csv_field :: "string \<Rightarrow> string" where
  "csv_field f = (if list_ex special f then DQUOTE # escape_quotes f @ [DQUOTE] else f)"

fun csv_join :: "string list \<Rightarrow> string" where
  "csv_join [] = []"
| "csv_join [f] = csv_field f"
| "csv_join (f # g # fs) = csv_field f @ COMMA # csv_join (g # fs)"

definition csv_writerow :: "string list \<Rightarrow> string" where
  \<comment> \<open>a record of one empty field is written as two quotes\<close>
  "csv_writerow fs = (if fs = [[]] then [DQUOTE, DQUOTE] else csv_join fs) @ [CR, LF]"

datatype parser_state =
  START_RECORD | START_FIELD | IN_FIELD | IN_QUOTED_FIELD | QUOTE_IN_QUOTED_FIELD | AFTER_CR

record reader =
  r_state :: parser_state
  r_field :: string
  r_fields :: "string list"
  r_records :: "string list list"

definition add_char :: "parser_state \<Rightarrow> reader \<Rightarrow> char \<Rightarrow> reader" where
  "add_char st rd c = rd\<lparr>r_field := r_field rd @ [c], r_state := st\<rparr>"

definition save_field :: "parser_state \<Rightarrow> reader \<Rightarrow> reader" where
  "save_field st rd = rd\<lparr>r_fields := r_fields rd @ [r_field rd], r_field := [], r_state := st\<rparr>"

definition end_record :: "char \<Rightarrow> reader \<Rightarrow> reader" where
  \<comment> \<open>the record is complete at a line break\<close>
  "end_record c rd =
     rd\<lparr>r_records := r_records rd @ [r_fields rd], r_fields := [], r_field := [],
        r_state := (if c = CR then AFTER_CR else START_RECORD)\<rparr>"

definition start_field :: "reader \<Rightarrow> char \<Rightarrow> reader" where
  "start_field rd c =
     (if is_newline c then end_record c (save_field START_FIELD rd)
      else if c = DQUOTE then rd\<lparr>r_state := IN_QUOTED_FIELD\<rparr>
      else if c = COMMA then save_field START_FIELD rd
      else add_char IN_FIELD rd c)"

definition start_record :: "reader \<Rightarrow> char \<Rightarrow> reader" where
  \<comment> \<open>an empty line gives a record without fields\<close>
  "start_record rd c = (if is_newline c then end_record c rd else start_field rd c)"

definition process_char :: "reader \<Rightarrow> char \<Rightarrow> reader" where
  "process_char rd c =
     (case r_state rd of
        START_RECORD \<Rightarrow> start_record rd c
      | AFTER_CR \<Rightarrow> if c = LF then rd\<lparr>r_state := START_RECORD\<rparr> else start_record rd c
      | START_FIELD \<Rightarrow> start_field rd c
      | IN_FIELD \<Rightarrow>
          if is_newline c then end_record c (save_field START_FIELD rd)
          else if c = COMMA then save_field START_FIELD rd
          else add_char IN_FIELD rd c
      | IN_QUOTED_FIELD \<Rightarrow>
          if c = DQUOTE then rd\<lparr>r_state := QUOTE_IN_QUOTED_FIELD\<rparr>
          else add_char IN_QUOTED_FIELD rd c
      | QUOTE_IN_QUOTED_FIELD \<Rightarrow>
          if c = DQUOTE then add_char IN_QUOTED_FIELD rd c
          else if c = COMMA then save_field START_FIELD rd
          else if is_newline c then end_record c (save_field START_FIELD rd)
          else add_char IN_FIELD rd c)"

definition reader0 :: reader where
  "reader0 = \<lparr>r_state = START_RECORD, r_field = [], r_fields = [], r_records = []\<rparr>"

definition between_records :: "reader \<Rightarrow> bool" where
  "between_records rd = (r_state rd = START_RECORD \<or> r_state rd = AFTER_CR)"

definition finish :: "reader \<Rightarrow> string list list" where
  \<comment> \<open>at the end of the text a record that has begun is complete\<close>
  "finish rd =
     (if between_records rd then r_records rd
      else r_records rd @ [r_fields rd @ [r_field rd]])"

definition csv_reader :: "string \<Rightarrow> string list list" where
  "csv_reader tx = finish (foldl process_char reader0 tx)"

definition record_ended :: "string \<Rightarrow> bool" where
  \<comment> \<open>the text is empty or ends with the line break of a record\<close>
  "record_ended tx = between_records (foldl process_char reader0 tx)"

subsection \<open>\<^verbatim>\<open>CSVLogger\<close>: creating the log and appending to it\<close>

definition CSVLogger_init :: "string option \<Rightarrow> string option" where
  \<comment> \<open>\<^verbatim>\<open>__init__\<close> writes the header when the file does not exist\<close>
  "CSVLogger_init logf = (case logf of None \<Rightarrow> Some (csv_writerow LOG_HEADER) | Some tx \<Rightarrow> Some tx)"

text \<open>
  The file is opened in append mode and the text of one record is written after what the
  file holds; a missing file is created.  \<open>repr\<close> is the text \<^verbatim>\<open>csv.writer\<close> writes for a
  \<^verbatim>\<open>float\<close>.  (\<open>log\<close> is the logarithm in HOL, hence the longer name.)
\<close>

definition log_row :: "(pyfloat \<Rightarrow> string) \<Rightarrow> datetime \<Rightarrow> string \<Rightarrow> pyfloat \<Rightarrow> string list" where
  "log_row repr now subject minutes =
     [str_date now, strftime_HMS now, subject, repr (py_round2 minutes)]"

definition text_of :: "string option \<Rightarrow> string" where
  \<comment> \<open>the text of a file, empty when the file is missing\<close>
  "text_of logf = (case logf of None \<Rightarrow> [] | Some tx \<Rightarrow> tx)"

definition CSVLogger_log ::
  "(pyfloat \<Rightarrow> string) \<Rightarrow> datetime \<Rightarrow> string option \<Rightarrow> string \<Rightarrow> pyfloat \<Rightarrow> string option" where
  "CSVLogger_log repr now logf subject minutes =
     Some (text_of logf @ csv_writerow (log_row repr now subject minutes))"

definition read_log :: "string option \<Rightarrow> csv_file option" where
  \<comment> \<open>the records that the reading functions see\<close>
  "read_log logf = map_option csv_reader logf"

subsection \<open>\<^verbatim>\<open>ConfigManager.save_config\<close>\<close>

definition save_config ::
  "ConfigManager \<Rightarrow> json \<Rightarrow> json \<Rightarrow> json \<Rightarrow> ConfigManager \<times> config_file" where
  \<comment> \<open>an argument \<open>JNull\<close> is Python's \<^verbatim>\<open>None\<close>: that field keeps its value\<close>
  "save_config self new_subjects new_daily_goal new_theme =
     (let self1 = (if new_subjects \<noteq> JNull then self\<lparr>subjects := new_subjects\<rparr> else self);
          self2 = (if new_daily_goal \<noteq> JNull then self1\<lparr>daily_goal := new_daily_goal\<rparr> else self1);
          self3 = (if new_theme \<noteq> JNull then self2\<lparr>theme := new_theme\<rparr> else self2)
      in (self3,
          Content (JObject [(''subjects'', subjects self3), (''daily_goal'', daily_goal self3),
                            (''theme'', theme self3)])))"

subsection \<open>\<^verbatim>\<open>StudyTrackerApp\<close>\<close>

text \<open>
  The state of the application: the fields that the goal and timer callbacks read and
  write, the two files, the message boxes shown so far, and the number of
  \<^verbatim>\<open>root.after(1000, self.update_timer)\<close> callbacks that are armed and have not fired.
  A callback returns the state it leaves together with the exception that leaves it, if
  any: what it has changed before raising stays changed.
\<close>

datatype dialog = showinfo string string | showerror string string

record StudyTrackerApp =
  config :: ConfigManager
  app_daily_goal :: json
  goal_var :: string
  duration_var :: string
  subject_var :: string
  timer_running :: bool
  remaining_time :: int
  logged_time :: int
  timer_label :: string
  start_pause_btn :: string
  progress_bar :: pyfloat
  progress_label :: string
  dialogs :: "dialog list"
  armed :: nat
  log_file :: "string option"
  conf_file :: config_file

record pylib =
  float_of :: "string \<Rightarrow> pyfloat option"
  int_of :: "string \<Rightarrow> int option"
  repr_of :: "pyfloat \<Rightarrow> string"
  clock :: datetime

definition number_of :: "json \<Rightarrow> pyfloat option" where
  \<comment> \<open>the JSON values that are Python numbers\<close>
  "number_of j =
     (case j of JInt i \<Rightarrow> Some (Fin (of_int i)) | JFloat x \<Rightarrow> Some x
      | JBool b \<Rightarrow> Some (if b then 1 else 0) | _ \<Rightarrow> None)"

definition hours_minutes :: "pyfloat \<Rightarrow> exn + (int \<times> int)" where
  \<comment> \<open>\<^verbatim>\<open>int(x // 60)\<close> and \<^verbatim>\<open>int(x % 60)\<close>: \<^verbatim>\<open>ValueError\<close> when \<open>x\<close> is not finite\<close>
  "hours_minutes x =
     bind_exn (py_int (py_floordiv60 x)) (\<lambda>hrs.
     bind_exn (py_int (py_mod60 x)) (\<lambda>mins. Inr (hrs, mins)))"

definition today_total :: "pylib \<Rightarrow> StudyTrackerApp \<Rightarrow> pyfloat" where
  \<comment> \<open>\<^verbatim>\<open>self.logger.get_today_minutes()\<close>\<close>
  "today_total py self =
     get_today_minutes (float_of py) (str_date (clock py)) (read_log (log_file self))"

definition update_goal_progress :: "pylib \<Rightarrow> StudyTrackerApp \<Rightarrow> StudyTrackerApp \<times> exn option" where
  \<comment> \<open>comparing a goal that is not a number with 0 raises \<^verbatim>\<open>TypeError\<close> before any widget
      changes; the progress bar is set before the label is computed\<close>
  "update_goal_progress py self =
     (let total_minutes = today_total py self
      in case number_of (app_daily_goal self) of
           None \<Rightarrow> (self, Some TypeError)
         | Some goal \<Rightarrow>
             let self1 = self\<lparr>progress_bar :=
                           (if py_positive goal then py_truediv total_minutes goal else 0)\<rparr>
             in case bind_exn (hours_minutes total_minutes) (\<lambda>t.
                     bind_exn (hours_minutes goal) (\<lambda>g. Inr (t, g))) of
                  Inl e \<Rightarrow> (self1, Some e)
                | Inr ((hrs, mins), (goal_hrs, goal_mins)) \<Rightarrow>
                    (self1\<lparr>progress_label :=
                         ''Today: '' @ str_int hrs @ '' hr '' @ str_int mins @ '' min / ''
                         @ str_int goal_hrs @ '' hr '' @ str_int goal_mins @ '' min''\<rparr>,
                     None))"

definition invalid_goal :: "StudyTrackerApp \<Rightarrow> StudyTrackerApp" where
  \<comment> \<open>the handler of \<^verbatim>\<open>ValueError\<close> in \<^verbatim>\<open>set_goal\<close>\<close>
  "invalid_goal self =
     self\<lparr>dialogs := dialogs self
            @ [showerror ''Invalid Input'' ''Please enter a valid number for daily goal.'']\<rparr>"

definition set_goal :: "pylib \<Rightarrow> StudyTrackerApp \<Rightarrow> StudyTrackerApp \<times> exn option" where
  "set_goal py self =
     (case int_of py (goal_var self) of
        None \<Rightarrow> (invalid_goal self, None)
      | Some n \<Rightarrow>
          if n \<le> 0 then (invalid_goal self, None)
          else
            let new_goal = (if n > 1440 then 1440 else n);
                self1 = self\<lparr>app_daily_goal := JInt new_goal\<rparr>
            in case update_goal_progress py self1 of
                 (self2, Some e) \<Rightarrow>
                   if e = ValueError then (invalid_goal self2, None) else (self2, Some e)
               | (self2, None) \<Rightarrow>
                   let self3 = self2\<lparr>dialogs := dialogs self2
                                 @ [showinfo ''Goal Updated''
                                      (''Daily goal set to '' @ str_int new_goal @ '' minutes.'')]\<rparr>;
                       self4 = self3\<lparr>config := (config self3)\<lparr>daily_goal := app_daily_goal self3\<rparr>\<rparr>;
                       (cfg, cf) = save_config (config self4) (subjects (config self4))
                                     (app_daily_goal self4) JNull
                   in (self4\<lparr>config := cfg, conf_file := cf\<rparr>, None))"

definition fmt02 :: "nat \<Rightarrow> string" where
  \<comment> \<open>the format \<^verbatim>\<open>{n:02}\<close> of a non-negative \<^verbatim>\<open>int\<close>\<close>
  "fmt02 n = (if n < 10 then CHR ''0'' # str_nat n else str_nat n)"

definition log_session :: "pylib \<Rightarrow> StudyTrackerApp \<Rightarrow> string \<Rightarrow> pyfloat \<Rightarrow> StudyTrackerApp" where
  \<comment> \<open>\<^verbatim>\<open>self.logger.log(subject, minutes)\<close>\<close>
  "log_session py self subject minutes =
     self\<lparr>log_file := CSVLogger_log (repr_of py) (clock py) (log_file self) subject minutes\<rparr>"

definition session_complete :: "pylib \<Rightarrow> StudyTrackerApp \<Rightarrow> StudyTrackerApp \<times> exn option" where
  \<comment> \<open>the \<^verbatim>\<open>try\<close> block of \<^verbatim>\<open>update_timer\<close> for a running timer that has run out; its handler
      passes over a \<^verbatim>\<open>ValueError\<close>\<close>
  "session_complete py self =
     (case float_of py (duration_var self) of
        None \<Rightarrow> (self, None)
      | Some total_duration \<Rightarrow>
          if subject_var self \<noteq> [] then
            let self2 = log_session py self (subject_var self) total_duration
            in case update_goal_progress py self2 of
                 (self3, Some e) \<Rightarrow> if e = ValueError then (self3, None) else (self3, Some e)
               | (self3, None) \<Rightarrow>
                   (case py_int total_duration of
                      Inl e \<Rightarrow> if e = ValueError then (self3, None) else (self3, Some e)
                    | Inr n \<Rightarrow>
                        (self3\<lparr>dialogs := dialogs self3
                            @ [showinfo ''Session Complete'' (str_int n @ '' minutes logged.'')]\<rparr>,
                         None))
          else (self, None))"

definition update_timer :: "pylib \<Rightarrow> StudyTrackerApp \<Rightarrow> StudyTrackerApp \<times> exn option" where
  "update_timer py self =
     (if remaining_time self \<le> 0 then
        let self1 = self\<lparr>timer_label := ''00:00:00''\<rparr>
        in case (if timer_running self1 then session_complete py self1 else (self1, None)) of
             (s, Some e) \<Rightarrow> (s, Some e)
           | (s, None) \<Rightarrow> (s\<lparr>timer_running := False, start_pause_btn := ''Start''\<rparr>, None)
      else
        let mins = remaining_time self div 60; secs = remaining_time self mod 60;
            hours = mins div 60; mins' = mins mod 60;
            self1 = self\<lparr>timer_label := fmt02 (nat hours) @ '':'' @ fmt02 (nat mins') @ '':''
                                          @ fmt02 (nat secs),
                         remaining_time := remaining_time self - 1\<rparr>
        in (if timer_running self1 then self1\<lparr>armed := armed self1 + 1\<rparr> else self1, None))"

definition invalid_duration :: "StudyTrackerApp \<Rightarrow> StudyTrackerApp" where
  "invalid_duration self =
     self\<lparr>dialogs := dialogs self
            @ [showerror ''Invalid Input'' ''Enter a valid duration and select a subject.'']\<rparr>"

definition start_countdown :: "pylib \<Rightarrow> StudyTrackerApp \<Rightarrow> StudyTrackerApp \<times> exn option" where
  "start_countdown py self =
     update_timer py (self\<lparr>timer_running := True, start_pause_btn := ''Pause''\<rparr>)"

definition pause_session :: "pylib \<Rightarrow> StudyTrackerApp \<Rightarrow> int \<Rightarrow> StudyTrackerApp \<times> exn option" where
  \<comment> \<open>the pause branch once the duration has been read: no handler here\<close>
  "pause_session py self total_seconds_set =
     (let elapsed_seconds = total_seconds_set - remaining_time self;
          new_session_seconds = elapsed_seconds - logged_time self;
          session_minutes = real_of_int new_session_seconds / 60
      in case (if session_minutes > 0.1 then
                 let self1 = log_session py self (subject_var self) (Fin session_minutes);
                     self2 = self1\<lparr>logged_time := logged_time self1 + new_session_seconds\<rparr>
                 in case update_goal_progress py self2 of
                      (self3, Some e) \<Rightarrow> (self3, Some e)
                    | (self3, None) \<Rightarrow>
                        (case py_int (Fin session_minutes) of
                           Inl e \<Rightarrow> (self3, Some e)
                         | Inr n \<Rightarrow>
                             (self3\<lparr>dialogs := dialogs self3
                                 @ [showinfo ''Session Paused'' (str_int n @ '' minutes logged.'')]\<rparr>,
                              None))
               else (self, None)) of
           (s, Some e) \<Rightarrow> (s, Some e)
         | (s, None) \<Rightarrow> (s\<lparr>timer_running := False, start_pause_btn := ''Start''\<rparr>, None))"

definition toggle_timer :: "pylib \<Rightarrow> StudyTrackerApp \<Rightarrow> StudyTrackerApp \<times> exn option" where
  "toggle_timer py self =
     (if \<not> timer_running self then
        (if remaining_time self \<le> 0 then
           (case float_of py (duration_var self) of
              None \<Rightarrow> (invalid_duration self, None)
            | Some mins \<Rightarrow>
                if subject_var self = [] then (invalid_duration self, None)
                else (case py_int (py_mul60 mins) of
                        Inl e \<Rightarrow> if e = ValueError then (invalid_duration self, None)
                                 else (self, Some e)
                      | Inr secs \<Rightarrow>
                          start_countdown py (self\<lparr>remaining_time := secs, logged_time := 0\<rparr>)))
         else start_countdown py self)
      else
        (case float_of py (duration_var self) of
           None \<Rightarrow> (self, Some ValueError)
         | Some d \<Rightarrow>
             (case py_int (py_mul60 d) of
                Inl e \<Rightarrow> (self, Some e)
              | Inr total_seconds_set \<Rightarrow> pause_session py self total_seconds_set)))"

definition tick :: "pylib \<Rightarrow> StudyTrackerApp \<Rightarrow> StudyTrackerApp" where
  \<comment> \<open>the event loop fires one armed callback, if there is one; an exception that leaves
      the callback is reported by the toolkit and the loop goes on\<close>
  "tick py self =
     (if armed self = 0 then self else fst (update_timer py (self\<lparr>armed := armed self - 1\<rparr>)))"

subsection \<open>Sample library functions and a start state\<close>

definition int_dec :: "string \<Rightarrow> int option" where
  \<comment> \<open>\<^verbatim>\<open>int(s)\<close> on the plain decimal numerals: an optional minus sign and digits\<close>
  "int_dec s =
     (case s of [] \<Rightarrow> None
      | c # cs \<Rightarrow>
          if c = CHR ''-'' then (if cs = [] then None else map_option (\<lambda>n. - int n) (digits_val 0 cs))
          else map_option int (digits_val 0 s))"

definition repr_dec :: "pyfloat \<Rightarrow> string" where
  \<comment> \<open>\<^verbatim>\<open>repr(x)\<close> on the values with two decimals, which are the finite values that
      \<^verbatim>\<open>log\<close> writes, and on the values that are not finite\<close>
  "repr_dec x =
     (case x of
        NaN \<Rightarrow> ''nan'' | PosInf \<Rightarrow> ''inf'' | NegInf \<Rightarrow> ''-inf''
      | Fin a \<Rightarrow>
          (let k = round_half_even (a * 100); n = nat \<bar>k\<bar>; fp = n mod 100
           in (if k < 0 then ''-'' else '''') @ str_nat (n div 100) @ ''.''
              @ (if fp mod 10 = 0 then [digit_char (fp div 10)] else show2 fp)))"

definition clock0 :: datetime where
  "clock0 = \<lparr>dt_year = 2024, dt_month = 5, dt_day = 1, dt_hour = 9, dt_minute = 5, dt_second = 30\<rparr>"

definition py0 :: pylib where
  "py0 = \<lparr>float_of = float_dec, int_of = int_dec, repr_of = repr_dec, clock = clock0\<rparr>"

definition app0 :: StudyTrackerApp where
  \<comment> \<open>the state after \<^verbatim>\<open>__init__\<close> without a configuration file and without a log\<close>
  "app0 =
     \<lparr>config = config_defaults, app_daily_goal = DEFAULT_DAILY_GOAL, goal_var = ''690'',
      duration_var = '''', subject_var = '''', timer_running = False, remaining_time = 0,
      logged_time = 0, timer_label = ''00:00:00'', start_pause_btn = ''Start'',
      progress_bar = 0, progress_label = '''', dialogs = [], armed = 0,
      log_file = CSVLogger_init None, conf_file = NoFile\<rparr>"

definition paused_app :: StudyTrackerApp where
  \<comment> \<open>a one-minute session for Math is started and paused before the first callback fires\<close>
  "paused_app =
     fst (toggle_timer py0
       (fst (toggle_timer py0 (app0\<lparr>duration_var := ''1'', subject_var := ''Math''\<rparr>))))"

definition nan_log :: string where
  \<comment> \<open>the log after a session of \<^verbatim>\<open>nan\<close> minutes has been logged by hand on the day of
      \<open>clock0\<close>\<close>
  "nan_log = csv_writerow LOG_HEADER @ csv_writerow [''2024-05-01'', ''08:00:00'', ''Math'', ''nan'']"

subsection \<open>Instants and durations of \<^verbatim>\<open>datetime\<close>\<close>

text \<open>
  A \<^verbatim>\<open>datetime\<close> value is the number of microseconds since 0001-01-01 00:00:00, the
  smallest one; the largest is 9999-12-31 23:59:59.999999.  A \<^verbatim>\<open>timedelta\<close> is a number of
  microseconds of at most 999999999 days in size.  Arithmetic that leaves these ranges
  raises \<^verbatim>\<open>OverflowError\<close>.
\<close>

definition US_PER_HOUR :: int where
  "US_PER_HOUR = 3600000000"

definition DT_END :: int where
  \<comment> \<open>one microsecond past \<^verbatim>\<open>datetime.max\<close>: 3652059 days\<close>
  "DT_END = 3652059 * 86400000000"

definition timedelta_minutes :: "pyfloat \<Rightarrow> exn + int" where
  \<comment> \<open>\<^verbatim>\<open>timedelta(minutes=x)\<close>: rounded to whole microseconds; not-a-number is a
      \<^verbatim>\<open>ValueError\<close>, an infinity an \<^verbatim>\<open>OverflowError\<close>\<close>
  "timedelta_minutes x =
     (case x of
        NaN \<Rightarrow> Inl ValueError
      | PosInf \<Rightarrow> Inl OverflowError
      | NegInf \<Rightarrow> Inl OverflowError
      | Fin a \<Rightarrow>
          (let d = round_half_even (a * 60000000)
           in if d < - 999999999 * 86400000000 \<or> 1000000000 * 86400000000 \<le> d
              then Inl OverflowError else Inr d))"

definition datetime_add :: "int \<Rightarrow> int \<Rightarrow> exn + int" where
  \<comment> \<open>\<^verbatim>\<open>t + d\<close> for a \<^verbatim>\<open>datetime\<close> and a \<^verbatim>\<open>timedelta\<close>\<close>
  "datetime_add t d = (if t + d < 0 \<or> DT_END \<le> t + d then Inl OverflowError else Inr (t + d))"

subsection \<open>A sample of \<^verbatim>\<open>datetime.strptime\<close>\<close>

text \<open>
  For concrete inputs: the texts of the fixed-width form \<^verbatim>\<open>YYYY-MM-DD HH:MM:SS\<close> that
  \<^verbatim>\<open>CSVLogger.log\<close> writes, on which \<^verbatim>\<open>strptime\<close> with the format
  \<^verbatim>\<open>"%Y-%m-%d %H:%M:%S"\<close> returns the instant written.
\<close>

definition is_leap :: "nat \<Rightarrow> bool" where
  "is_leap y = (y mod 4 = 0 \<and> (y mod 100 \<noteq> 0 \<or> y mod 400 = 0))"

definition days_in_month :: "nat \<Rightarrow> nat \<Rightarrow> nat" where
  "days_in_month y m =
     (if m = 2 then (if is_leap y then 29 else 28)
      else if m = 4 \<or> m = 6 \<or> m = 9 \<or> m = 11 then 30 else 31)"

definition days_before_year :: "nat \<Rightarrow> nat" where
  "days_before_year y = (y - 1) * 365 + (y - 1) div 4 - (y - 1) div 100 + (y - 1) div 400"

definition days_before_month :: "nat \<Rightarrow> nat \<Rightarrow> nat" where
  "days_before_month y m =
     [0, 31, 59, 90, 120, 151, 181, 212, 243, 273, 304, 334] ! (m - 1)
     + (if 2 < m \<and> is_leap y then 1 else 0)"

definition instant :: "nat \<Rightarrow> nat \<Rightarrow> nat \<Rightarrow> nat \<Rightarrow> nat \<Rightarrow> nat \<Rightarrow> int option" where
  "instant y m d hh mm ss =
     (if 1 \<le> y \<and> 1 \<le> m \<and> m \<le> 12 \<and> 1 \<le> d \<and> d \<le> days_in_month y m
         \<and> hh < 24 \<and> mm < 60 \<and> ss < 60
      then Some (int (days_before_year y + days_before_month y m + (d - 1)) * 86400000000
                 + int (hh * 3600 + mm * 60 + ss) * 1000000)
      else None)"

definition field_val :: "string \<Rightarrow> nat option" where
  "field_val s = (if s = [] then None else digits_val 0 s)"

definition strptime_fixed :: "string \<Rightarrow> int option" where
  "strptime_fixed s =
     (if length s = 19 \<and> s ! 4 = CHR ''-'' \<and> s ! 7 = CHR ''-'' \<and> s ! 10 = CHR '' ''
         \<and> s ! 13 = CHR '':'' \<and> s ! 16 = CHR '':''
      then (case (field_val (take 4 s), field_val (take 2 (drop 5 s)), field_val (take 2 (drop 8 s)),
                  field_val (take 2 (drop 11 s)), field_val (take 2 (drop 14 s)),
                  field_val (take 2 (drop 17 s))) of
              (Some y, Some m, Some d, Some hh, Some mm, Some ss) \<Rightarrow> instant y m d hh mm ss
            | _ \<Rightarrow> None)
      else None)"

subsection \<open>\<^verbatim>\<open>plot_hourly_productivity_multiline\<close>: the series it plots\<close>

type_synonym by_day = "(cell \<times> real list) list"

definition last_7_dates :: "(cell \<times> 'v) list \<Rightarrow> exn + cell list" where
  \<comment> \<open>\<^verbatim>\<open>sorted(data.keys())[-7:]\<close>; comparing \<^verbatim>\<open>None\<close> with a string raises \<^verbatim>\<open>TypeError\<close>\<close>
  "last_7_dates data =
     (let keys = map fst data
      in if None \<in> set keys \<and> 2 \<le> length keys then Inl TypeError
         else Inr (let xs = sort keys in drop (length xs - 7) xs))"

function slice_loop :: "int \<Rightarrow> int \<Rightarrow> real list \<Rightarrow> real list \<times> exn option" where
  "slice_loop current end_time hours =
     (if current < end_time then
        let hour = nat ((current div US_PER_HOUR) mod 24);
            floor_hour = current - current mod US_PER_HOUR
        in if DT_END \<le> floor_hour + US_PER_HOUR then (hours, Some OverflowError)
           else
             let next_hour = floor_hour + US_PER_HOUR;
                 slice_end = min end_time next_hour;
                 minutes_in_hour = real_of_int (slice_end - current) / 1000000 / 60
             in slice_loop slice_end end_time (hours[hour := hours ! hour + minutes_in_hour])
      else (hours, None))"
  by pat_completeness auto
termination
proof (relation "measure (\<lambda>(current, end_time, hours). nat (end_time - current))")
  show "wf (measure (\<lambda>(current, end_time, hours). nat (end_time - current)))"
    by simp
next
  fix current end_time :: int and hours :: "real list" and x xa xb xc xd
  assume lt: "current < end_time"
    and "xa = current - current mod US_PER_HOUR" "xb = xa + US_PER_HOUR"
    and xc: "xc = min end_time xb"
  have "current mod US_PER_HOUR < US_PER_HOUR"
    by (simp add: US_PER_HOUR_def)
  then have "current < xb"
    using \<open>xa = current - current mod US_PER_HOUR\<close> \<open>xb = xa + US_PER_HOUR\<close> by linarith
  then have "current < xc" using lt xc by simp
  then show "((xc, end_time, hours[x := hours ! x + xd]), current, end_time, hours)
      \<in> measure (\<lambda>(current, end_time, hours). nat (end_time - current))"
    using lt xc by simp
qed

declare slice_loop.simps [simp del]

definition fmt_cell :: "cell \<Rightarrow> string" where
  \<comment> \<open>a cell inside an f-string\<close>
  "fmt_cell c = (case c of None \<Rightarrow> ''None'' | Some s \<Rightarrow> s)"

definition py_strptime :: "(string \<Rightarrow> int option) \<Rightarrow> string \<Rightarrow> exn + int" where
  "py_strptime strptime s = (case strptime s of None \<Rightarrow> Inl ValueError | Some t \<Rightarrow> Inr t)"

definition read_session ::
  "(string \<Rightarrow> int option) \<Rightarrow> (string \<Rightarrow> pyfloat option) \<Rightarrow> row \<Rightarrow> exn + (int \<times> int)" where
  \<comment> \<open>the statements of the inner \<^verbatim>\<open>try\<close> before the loop: start and end of the session\<close>
  "read_session strptime pf r =
     bind_exn (getitem r ''date'') (\<lambda>d.
     bind_exn (getitem r ''timestamp'') (\<lambda>t.
     bind_exn (py_strptime strptime (fmt_cell d @ '' '' @ fmt_cell t)) (\<lambda>start_time.
     bind_exn (bind_exn (getitem r ''minutes'') (py_float pf)) (\<lambda>m.
     bind_exn (timedelta_minutes m) (\<lambda>duration.
     bind_exn (datetime_add start_time duration) (\<lambda>end_time.
     Inr (start_time, end_time)))))))"

fun dict_map_at :: "'k \<Rightarrow> ('v \<Rightarrow> 'v) \<Rightarrow> ('k \<times> 'v) list \<Rightarrow> ('k \<times> 'v) list" where
  \<comment> \<open>\<^verbatim>\<open>d[k]\<close> is updated in place\<close>
  "dict_map_at k f [] = []"
| "dict_map_at k f ((k', v) # d) = (if k' = k then (k', f v) # d else (k', v) # dict_map_at k f d)"

definition hourly_row ::
  "(string \<Rightarrow> int option) \<Rightarrow> (string \<Rightarrow> pyfloat option) \<Rightarrow> cell list \<Rightarrow> row \<Rightarrow> by_day \<Rightarrow> exn + by_day" where
  \<comment> \<open>one pass of the loop over the rows; \<^verbatim>\<open>row['date']\<close> is read outside the inner \<^verbatim>\<open>try\<close>,
      and what the slicing loop has credited stays when it raises\<close>
  "hourly_row strptime pf dates r hourly_by_day =
     (case getitem r ''date'' of
        Inl e \<Rightarrow> Inl e
      | Inr date \<Rightarrow>
          if date \<notin> set dates then Inr hourly_by_day
          else (case read_session strptime pf r of
                  Inl e \<Rightarrow> Inr hourly_by_day
                | Inr (start_time, end_time) \<Rightarrow>
                    Inr (dict_map_at date (\<lambda>hours. fst (slice_loop start_time end_time hours))
                           hourly_by_day)))"

fun hourly_rows ::
  "(string \<Rightarrow> int option) \<Rightarrow> (string \<Rightarrow> pyfloat option) \<Rightarrow> cell list \<Rightarrow> row list \<Rightarrow> by_day \<Rightarrow> exn + by_day" where
  "hourly_rows strptime pf dates [] hourly_by_day = Inr hourly_by_day"
| "hourly_rows strptime pf dates (r # rows) hourly_by_day =
     (case hourly_row strptime pf dates r hourly_by_day of
        Inl e \<Rightarrow> Inl e
      | Inr hourly_by_day' \<Rightarrow> hourly_rows strptime pf dates rows hourly_by_day')"

definition hours_of :: "by_day \<Rightarrow> cell \<Rightarrow> real list" where
  \<comment> \<open>\<^verbatim>\<open>hourly_by_day[day]\<close>; every day of the last seven is a key\<close>
  "hours_of hourly_by_day day =
     (case map_of hourly_by_day day of None \<Rightarrow> replicate 24 0 | Some hours \<Rightarrow> hours)"

definition hourly_total :: "cell list \<Rightarrow> by_day \<Rightarrow> nat \<Rightarrow> real" where
  "hourly_total dates hourly_by_day h =
     (if dates \<noteq> [] then sum_list (map (\<lambda>day. hours_of hourly_by_day day ! h) dates) / real (length dates)
      else 0)"

definition plot_hourly_productivity_multiline ::
  "(string \<Rightarrow> int option) \<Rightarrow> (string \<Rightarrow> pyfloat option) \<Rightarrow> (cell \<times> 'v) list \<Rightarrow> csv_file option
     \<Rightarrow> exn + (by_day \<times> real list)" where
  \<comment> \<open>the lines per day and the average line; \<open>Inl\<close> is an exception that reaches the outer
      handler, which shows an error box and returns \<^verbatim>\<open>False\<close>\<close>
  "plot_hourly_productivity_multiline strptime pf data logf =
     (case last_7_dates data of
        Inl e \<Rightarrow> Inl e
      | Inr dates \<Rightarrow>
          (case logf of
             None \<Rightarrow> Inl FileNotFoundError
           | Some recs \<Rightarrow>
               (case hourly_rows strptime pf dates (DictReader recs)
                       (map (\<lambda>date. (date, replicate 24 0)) dates) of
                  Inl e \<Rightarrow> Inl e
                | Inr hourly_by_day \<Rightarrow>
                    Inr (hourly_by_day, map (hourly_total dates hourly_by_day) [0..<24]))))"

subsection \<open>The share of a session in an hour of the day\<close>

definition overlap :: "int \<Rightarrow> int \<Rightarrow> int \<Rightarrow> int" where
  \<comment> \<open>the microseconds of the interval from \<open>a\<close> to \<open>b\<close> that lie in the \<open>k\<close>-th hour since
      the epoch\<close>
  "overlap a b k = max 0 (min b ((k + 1) * US_PER_HOUR) - max a (k * US_PER_HOUR))"

definition hour_overlap :: "int \<Rightarrow> int \<Rightarrow> nat \<Rightarrow> int" where
  \<comment> \<open>the microseconds of the interval that lie in hour \<open>h\<close> of some day\<close>
  "hour_overlap a b h =
     (\<Sum>k = a div US_PER_HOUR..b div US_PER_HOUR. if k mod 24 = int h then overlap a b k else 0)"

definition hour_share :: "int \<Rightarrow> int \<Rightarrow> nat \<Rightarrow> real" where
  \<comment> \<open>the same in minutes\<close>
  "hour_share a b h = real_of_int (hour_overlap a b h) / 60000000"

subsection \<open>Well-formed sessions and their share in the hours of the day\<close>

text \<open>
  What the claim says of a row, written on the cells of the row.  A row holds a
  well-formed session when its date, timestamp and minutes cells are there, date and
  timestamp together are the text of an instant, the minutes are the text of a finite
  number, and the session of that many minutes (to the microsecond) from that instant is
  one that \<^verbatim>\<open>timedelta\<close> and \<^verbatim>\<open>datetime\<close> can hold.
\<close>

definition session_of ::
  "(string \<Rightarrow> int option) \<Rightarrow> (string \<Rightarrow> pyfloat option) \<Rightarrow> row \<Rightarrow> (int \<times> int) option" where
  \<comment> \<open>start and end of the session of a row\<close>
  "session_of strptime pf r =
     (case r ''date'' of None \<Rightarrow> None | Some d \<Rightarrow>
      case r ''timestamp'' of None \<Rightarrow> None | Some t \<Rightarrow>
      case strptime (fmt_cell d @ '' '' @ fmt_cell t) of None \<Rightarrow> None | Some start \<Rightarrow>
      case minutes_of pf r of
        Some (Fin x) \<Rightarrow>
          (let us = round_half_even (x * 60000000)
           in if - 999999999 * 86400000000 \<le> us \<and> us < 1000000000 * 86400000000
                 \<and> 0 \<le> start + us \<and> start + us < DT_END
              then Some (start, start + us) else None)
      | _ \<Rightarrow> None)"

definition row_share ::
  "(string \<Rightarrow> int option) \<Rightarrow> (string \<Rightarrow> pyfloat option) \<Rightarrow> row \<Rightarrow> nat \<Rightarrow> real" where
  \<comment> \<open>the minutes of the session of a row that lie in an hour of the day; nothing for a
      row without a well-formed session\<close>
  "row_share strptime pf r h =
     (case session_of strptime pf r of None \<Rightarrow> 0 | Some (s, e) \<Rightarrow> hour_share s e h)"

definition day_share ::
  "(string \<Rightarrow> int option) \<Rightarrow> (string \<Rightarrow> pyfloat option) \<Rightarrow> row list \<Rightarrow> cell \<Rightarrow> nat \<Rightarrow> real" where
  \<comment> \<open>the same, summed over the rows of a date\<close>
  "day_share strptime pf rows day h =
     sum_list (map (\<lambda>r. row_share strptime pf r h) (filter (\<lambda>r. r ''date'' = Some day) rows))"

text \<open>Sample logs for the hour bucketing.\<close>

definition negative_row :: row where
  \<comment> \<open>the row that a session started with the duration \<^verbatim>\<open>-5\<close> leaves in the log\<close>
  "negative_row = dict_row LOG_HEADER [''2024-05-01'', ''10:30:00'', ''Math'', ''-5'']"

definition two_day_log :: csv_file where
  \<comment> \<open>two sessions on one day, one of them across an hour boundary; on the next day a
      session across midnight, a row whose timestamp is not one, and a negative session\<close>
  "two_day_log =
     [LOG_HEADER,
      [''2024-05-01'', ''10:30:00'', ''Math'', ''90''],
      [''2024-05-01'', ''11:15:00'', ''Physics'', ''30''],
      [''2024-05-02'', ''23:30:00'', ''Math'', ''60''],
      [''2024-05-02'', ''noon'', ''Math'', ''15''],
      [''2024-05-02'', ''09:00:00'', ''Math'', ''-5'']]"


section \<open>Properties\<close>

subsection \<open>Floats\<close>

lemma numeral_pyfloat: "(numeral n :: pyfloat) = Fin (numeral n)"
proof (induction n)
  case One
  then show ?case by (simp add: one_pyfloat_def)
next
  case (Bit0 n)
  show ?case
    by (simp only: numeral_Bit0 [of n] Bit0.IH plus_pyfloat.simps)
next
  case (Bit1 n)
  show ?case
    by (simp only: numeral_Bit1 [of n] Bit1.IH plus_pyfloat.simps one_pyfloat_def)
qed

lemmas eval_float = numeral_pyfloat zero_pyfloat_def one_pyfloat_def

subsection \<open>The two aggregations are one\<close>

lemma all_loop_weekly_loop: "all_loop pf rows data = weekly_loop pf rows data"
  by (induction rows arbitrary: data) (auto split: sum.splits)

text \<open>
  C9.  \<^verbatim>\<open>get_weekly_data\<close> and \<^verbatim>\<open>get_all_data\<close> are extensionally equal: for every log file
  (present or not) and every behaviour of \<^verbatim>\<open>float\<close> they return the same mapping of dates
  to per-subject totals; neither restricts the rows to a window of seven dates.
\<close>

theorem get_weekly_data_eq_get_all_data:
  "get_weekly_data pf logf = get_all_data pf logf"
  by (cases logf) (simp_all add: get_weekly_data_def get_all_data_def all_loop_weekly_loop)

subsection \<open>Today's minutes\<close>

lemma dict_row_dom: "dict_row fn r k = None \<longleftrightarrow> k \<notin> set fn"
proof -
  let ?ys = "map Some r @ replicate (length fn - length r) None"
  have "map fst (zip fn ?ys) = fn"
    by (simp add: map_fst_zip_take)
  then have "fst ` set (zip fn ?ys) = set fn"
    by (metis set_map)
  then show ?thesis
    by (simp add: dict_row_def map_of_eq_None_iff)
qed

lemma DictReader_dom:
  "r \<in> set (DictReader recs) \<Longrightarrow> r' \<in> set (DictReader recs) \<Longrightarrow> r k = None \<longleftrightarrow> r' k = None"
  by (auto simp: DictReader_def dict_row_dom split: list.splits)

lemma today_loop_keyerror:
  "rows \<noteq> [] \<Longrightarrow> \<forall>r \<in> set rows. r ''date'' = None \<Longrightarrow> today_loop pf today rows tot = Inl KeyError"
  by (cases rows) (auto simp: getitem_def)

lemma today_loop_sum:
  "\<forall>r \<in> set rows. r ''date'' \<noteq> None \<Longrightarrow> \<forall>r \<in> set rows. dated today r \<longrightarrow> \<not> truncated r \<Longrightarrow>
   today_loop pf today rows tot =
     Inr (tot + sum_list (List.map_filter (minutes_of pf) (filter (dated today) rows)))"
proof (induction rows arbitrary: tot)
  case Nil
  then show ?case by (simp add: List.map_filter_simps)
next
  case (Cons r rows)
  then show ?case
    by (auto simp: getitem_def bind_exn_def py_float_def skipped_def dated_def truncated_def
        minutes_of_def List.map_filter_simps add.assoc split: option.splits)
qed

text \<open>
  When no row dated today is cut off before its minutes column, \<^verbatim>\<open>get_today_minutes\<close>
  returns the sum of the minutes of the well-formed rows dated today.
\<close>

lemma get_today_minutes_sum:
  assumes "\<forall>r \<in> set (DictReader recs). dated today r \<longrightarrow> \<not> truncated r"
  shows "get_today_minutes pf today (Some recs) =
           sum_list (List.map_filter (minutes_of pf) (filter (dated today) (DictReader recs)))"
proof (cases "\<forall>r \<in> set (DictReader recs). r ''date'' \<noteq> None")
  case True
  then show ?thesis using assms by (simp add: get_today_minutes_def today_loop_sum)
next
  case False
  then obtain r0 where r0: "r0 \<in> set (DictReader recs)" "r0 ''date'' = None" by auto
  then have all: "\<forall>r \<in> set (DictReader recs). r ''date'' = None"
    using DictReader_dom by blast
  then have "filter (dated today) (DictReader recs) = []"
    by (auto simp: dated_def filter_empty_conv)
  moreover have "DictReader recs \<noteq> []" using r0 by auto
  ultimately show ?thesis using all
    by (simp add: get_today_minutes_def today_loop_keyerror List.map_filter_simps)
qed

lemmas eval_rows = DictReader_def dict_row_def LOG_HEADER_def read_entry_def getitem_def
  bind_exn_def py_float_def skipped_def float_dec_def unsigned_dec_def digit_val_def
  List.map_filter_simps eval_float

lemmas eval_log = get_today_minutes_def get_weekly_data_def get_all_data_def
  dated_def truncated_def minutes_of_def eval_rows

text \<open>
  C3.  \<^verbatim>\<open>get_today_minutes\<close> is to return the sum of the minutes of the well-formed rows
  dated today, for every log file.  It does not on a log that also holds a row dated
  today that ends before the minutes column: the well-formed row dated today has 30
  minutes, and the function returns 0.
\<close>

theorem short_today_row_loses_total:
  "sum_list (List.map_filter (minutes_of float_dec)
      (filter (dated ''2024-05-01'') (DictReader short_row_log))) = 30
   \<and> get_today_minutes float_dec ''2024-05-01'' (Some short_row_log) = 0"
  by (simp add: short_row_log_def eval_log)

text \<open>
  C4.  The aggregation reads are meant to skip a malformed row and go on.  A record that
  ends before the minutes column is such a row, yet it aborts the whole read: its minutes
  cell is \<^verbatim>\<open>None\<close>, \<^verbatim>\<open>float(None)\<close> raises \<^verbatim>\<open>TypeError\<close>, the inner handler catches only
  \<^verbatim>\<open>ValueError\<close> and \<^verbatim>\<open>KeyError\<close>, and the outer handler returns the default.  With the
  well-formed row alone the reads return 30 minutes; with the short row appended they
  return 0 and the empty mapping.
\<close>

theorem truncated_row_aborts_reads:
  "get_today_minutes float_dec ''2024-05-01''
     (Some [LOG_HEADER, [''2024-05-01'', ''09:00:00'', ''Math'', ''30'']]) = 30
   \<and> get_today_minutes float_dec ''2024-05-01''
     (Some [LOG_HEADER, [''2024-05-01'', ''09:00:00'', ''Math'', ''30''],
                        [''2024-05-01'', ''10:00:00'']]) = 0
   \<and> get_weekly_data float_dec
     (Some [LOG_HEADER, [''2024-05-01'', ''09:00:00'', ''Math'', ''30'']])
       = [(Some ''2024-05-01'', [(Some ''Math'', 30)])]
   \<and> get_weekly_data float_dec
     (Some [LOG_HEADER, [''2024-05-01'', ''09:00:00'', ''Math'', ''30''],
                        [''2024-05-01'', ''10:00:00'']]) = []
   \<and> get_all_data float_dec
     (Some [LOG_HEADER, [''2024-05-01'', ''09:00:00'', ''Math'', ''30''],
                        [''2024-05-01'', ''10:00:00'']]) = []"
  by (simp add: eval_log)

subsection \<open>The mapping that \<^verbatim>\<open>get_weekly_data\<close> returns\<close>

lemma map_of_dd_add:
  "map_of (dd_add k v d) k' =
     (if k' = k then Some ((case map_of d k of None \<Rightarrow> 0 | Some x \<Rightarrow> x) + v) else map_of d k')"
  by (induction k v d rule: dd_add.induct) auto

lemma keys_data_add: "fst ` set (data_add dt s v data) = insert dt (fst ` set data)"
  by (induction dt s v data rule: data_add.induct) (simp_all add: insert_commute)

lemma lookup2_Nil: "lookup2 [] dt s = None"
  by (simp add: lookup2_def)

lemma lookup2_Cons:
  "lookup2 ((dt', m) # data) dt s = (if dt = dt' then map_of m s else lookup2 data dt s)"
  by (simp add: lookup2_def)

lemma lookup2_data_add:
  "lookup2 (data_add dt s v data) dt' s' =
     (if dt' = dt \<and> s' = s
      then Some ((case lookup2 data dt s of None \<Rightarrow> 0 | Some x \<Rightarrow> x) + v)
      else lookup2 data dt' s')"
  by (induction dt s v data rule: data_add.induct)
     (auto simp: lookup2_Nil lookup2_Cons map_of_dd_add)

lemma entries_Nil: "entries pf [] = []"
  by (simp add: entries_def List.map_filter_simps)

lemma entries_Cons:
  "entries pf (r # rows) =
     (case entry_of pf r of None \<Rightarrow> entries pf rows | Some t \<Rightarrow> t # entries pf rows)"
  by (simp add: entries_def List.map_filter_simps split: option.splits)

lemma read_entry_well_formed: "entry_of pf r = Some t \<Longrightarrow> read_entry pf r = Inr t"
  by (auto simp: entry_of_def minutes_of_def read_entry_def bind_exn_def getitem_def py_float_def
      split: option.splits)

lemma read_entry_malformed:
  "entry_of pf r = None \<Longrightarrow> \<not> truncated r \<Longrightarrow> \<exists>e. read_entry pf r = Inl e \<and> skipped e"
  by (auto simp: entry_of_def minutes_of_def read_entry_def bind_exn_def getitem_def py_float_def
      truncated_def skipped_def split: option.splits)

lemma weekly_loop_entries:
  "\<forall>r \<in> set rows. \<not> truncated r \<Longrightarrow>
   weekly_loop pf rows data = Inr (add_entries (entries pf rows) data)"
proof (induction rows arbitrary: data)
  case Nil
  then show ?case by (simp add: entries_Nil)
next
  case (Cons r rows)
  show ?case
  proof (cases "entry_of pf r")
    case None
    have "\<not> truncated r" using Cons.prems by simp
    then obtain e where "read_entry pf r = Inl e" "skipped e"
      using read_entry_malformed [OF None] by blast
    then show ?thesis using Cons None
      by (simp add: entries_Cons)
  next
    case (Some t)
    then show ?thesis using Cons read_entry_well_formed [OF Some]
      by (cases t) (simp add: entries_Cons)
  qed
qed

lemma minutes_for_Nil: "minutes_for dt s [] = []"
  by (simp add: minutes_for_def)

lemma minutes_for_Cons:
  "minutes_for dt s ((dt', s', v) # es) =
     (if dt' = dt \<and> s' = s then v # minutes_for dt s es else minutes_for dt s es)"
  by (simp add: minutes_for_def)

lemma lookup2_add_entries:
  "lookup2 (add_entries es data) dt s =
     (if minutes_for dt s es = [] then lookup2 data dt s
      else Some ((case lookup2 data dt s of None \<Rightarrow> 0 | Some x \<Rightarrow> x) + sum_list (minutes_for dt s es)))"
proof (induction es data rule: add_entries.induct)
  case (1 data)
  then show ?case by (simp add: minutes_for_Nil)
next
  case (2 dt' s' v es data)
  then show ?case
    by (simp add: minutes_for_Cons lookup2_data_add add.assoc split: option.splits)
qed

lemma keys_add_entries:
  "fst ` set (add_entries es data) = fst ` set es \<union> fst ` set data"
  by (induction es data rule: add_entries.induct) (simp_all add: keys_data_add)

text \<open>
  C2, as the code has it.  \<^verbatim>\<open>get_weekly_data\<close> does not restrict its result to seven dates:
  when no record is cut off before the minutes column, its date keys are the dates of all
  well-formed rows of the log, and the entry for a date and a subject is the sum of the
  minutes of the well-formed rows with that date and subject (and there is no entry when
  there is no such row).
\<close>

theorem get_weekly_data_totals:
  assumes "\<forall>r \<in> set (DictReader recs). \<not> truncated r"
  shows "fst ` set (get_weekly_data pf (Some recs)) = fst ` set (entries pf (DictReader recs))
    \<and> lookup2 (get_weekly_data pf (Some recs)) dt s =
        total_of (minutes_for dt s (entries pf (DictReader recs)))"
proof -
  have loop: "get_weekly_data pf (Some recs) = add_entries (entries pf (DictReader recs)) []"
    using assms by (simp add: get_weekly_data_def weekly_loop_entries)
  show ?thesis
    unfolding loop by (simp add: keys_add_entries lookup2_add_entries total_of_def lookup2_Nil)
qed

lemma gwd8: "get_weekly_data float_dec (Some eight_days) =
  [(Some ''2024-05-01'', [(Some ''Math'', 30)]), (Some ''2024-05-02'', [(Some ''Math'', 30)]),
   (Some ''2024-05-03'', [(Some ''Math'', 30)]), (Some ''2024-05-04'', [(Some ''Math'', 30)]),
   (Some ''2024-05-05'', [(Some ''Math'', 30)]), (Some ''2024-05-06'', [(Some ''Math'', 30)]),
   (Some ''2024-05-07'', [(Some ''Math'', 30)]), (Some ''2024-05-08'', [(Some ''Math'', Fin 42.5)])]"
  by (simp add: eight_days_def get_weekly_data_def eval_rows)

lemma dates8: "file_dates eight_days =
  [Some ''2024-05-01'', Some ''2024-05-02'', Some ''2024-05-03'', Some ''2024-05-04'',
   Some ''2024-05-05'', Some ''2024-05-06'', Some ''2024-05-07'', Some ''2024-05-08'',
   Some ''2024-05-08'']"
  by (simp add: eight_days_def file_dates_def eval_rows)

lemma seven8: "seven_largest [Some ''2024-05-01'', Some ''2024-05-02'', Some ''2024-05-03'', Some ''2024-05-04'',
   Some ''2024-05-05'', Some ''2024-05-06'', Some ''2024-05-07'', Some ''2024-05-08'',
   Some ''2024-05-08''] = [Some ''2024-05-02'', Some ''2024-05-03'', Some ''2024-05-04'',
   Some ''2024-05-05'', Some ''2024-05-06'', Some ''2024-05-07'', Some ''2024-05-08'']"
  by code_simp

text \<open>
  C2, as stated, fails: on a log with eight distinct dates the result has a date key that is
  not among the seven largest distinct dates of the file.
\<close>

theorem get_weekly_data_not_seven:
  "\<not> fst ` set (get_weekly_data float_dec (Some eight_days))
       \<subseteq> set (seven_largest (file_dates eight_days))"
  by (simp add: gwd8 dates8 seven8)

lemma entries8: "entries float_dec (DictReader eight_days) =
  [(Some ''2024-05-01'', Some ''Math'', 30), (Some ''2024-05-02'', Some ''Math'', 30),
   (Some ''2024-05-03'', Some ''Math'', 30), (Some ''2024-05-04'', Some ''Math'', 30),
   (Some ''2024-05-05'', Some ''Math'', 30), (Some ''2024-05-06'', Some ''Math'', 30),
   (Some ''2024-05-07'', Some ''Math'', 30), (Some ''2024-05-08'', Some ''Math'', 30),
   (Some ''2024-05-08'', Some ''Math'', Fin 12.5)]"
  by (simp add: eight_days_def entries_def entry_of_def minutes_of_def eval_rows)

lemma not_truncated8: "\<forall>r \<in> set (DictReader eight_days). \<not> truncated r"
  by (simp add: eight_days_def truncated_def eval_rows)

text \<open>
  On the log with eight dates: the two rows of the last date add up, and the first date is
  a key of the result.
\<close>

theorem get_weekly_data_totals_witness:
  "lookup2 (get_weekly_data float_dec (Some eight_days)) (Some ''2024-05-08'') (Some ''Math'')
       = Some (Fin 42.5)
   \<and> lookup2 (get_weekly_data float_dec (Some eight_days)) (Some ''2024-05-08'') (Some ''Physics'')
       = None
   \<and> Some ''2024-05-01'' \<in> fst ` set (get_weekly_data float_dec (Some eight_days))"
  using get_weekly_data_totals [OF not_truncated8, where pf = float_dec
      and dt = "Some ''2024-05-08''" and s = "Some ''Math''"]
    get_weekly_data_totals [OF not_truncated8, where pf = float_dec
      and dt = "Some ''2024-05-08''" and s = "Some ''Physics''"]
  by (simp add: entries8 minutes_for_def total_of_def eval_float)

subsection \<open>The configuration\<close>

text \<open>
  C5.  When the backing file does not exist every read returns its default:
  \<^verbatim>\<open>get_today_minutes\<close> returns 0, \<^verbatim>\<open>get_weekly_data\<close> and \<^verbatim>\<open>get_all_data\<close> return the empty
  mapping, and \<^verbatim>\<open>load_config\<close> leaves the fields as they are, which after the constructor
  are the default subjects, 690 and \<^verbatim>\<open>"system"\<close>.  No exception value occurs: the results
  are plain values.
\<close>

theorem file_not_found_defaults:
  "get_today_minutes pf today None = 0
   \<and> get_weekly_data pf None = []
   \<and> get_all_data pf None = []
   \<and> load_config self NoFile = self
   \<and> ConfigManager_init NoFile =
       \<lparr>subjects = JArray [JString ''Math'', JString ''Physics'', JString ''Chemistry''],
        daily_goal = JInt 690, theme = JString ''system''\<rparr>"
  by (simp add: get_today_minutes_def get_weekly_data_def get_all_data_def load_config_def
      ConfigManager_init_def config_defaults_def DEFAULT_SUBJECTS_def DEFAULT_DAILY_GOAL_def)

text \<open>
  C7.  The three configuration keys are optional: for a JSON object in the configuration
  file each field becomes the value stored under its key when the key is present and the
  default when it is absent; a JSON value that is not an object resets all three fields to
  the defaults.
\<close>

theorem load_config_optional_keys:
  "(json_dict kvs ''subjects'' = Some v1 \<longrightarrow> subjects (load_config self (Content (JObject kvs))) = v1)
   \<and> (json_dict kvs ''subjects'' = None \<longrightarrow>
        subjects (load_config self (Content (JObject kvs))) = DEFAULT_SUBJECTS)
   \<and> (json_dict kvs ''daily_goal'' = Some v2 \<longrightarrow>
        daily_goal (load_config self (Content (JObject kvs))) = v2)
   \<and> (json_dict kvs ''daily_goal'' = None \<longrightarrow>
        daily_goal (load_config self (Content (JObject kvs))) = JInt 690)
   \<and> (json_dict kvs ''theme'' = Some v3 \<longrightarrow> theme (load_config self (Content (JObject kvs))) = v3)
   \<and> (json_dict kvs ''theme'' = None \<longrightarrow>
        theme (load_config self (Content (JObject kvs))) = JString ''system'')
   \<and> (\<not> is_object j \<longrightarrow>
        load_config self (Content j) =
          \<lparr>subjects = DEFAULT_SUBJECTS, daily_goal = JInt 690, theme = JString ''system''\<rparr>)"
  by (cases j) (simp_all add: load_config_def dict_get_def config_defaults_def
      DEFAULT_DAILY_GOAL_def is_object_def)

text \<open>
  An object without the key \<^verbatim>\<open>subjects\<close>, and an array in place of the object.
\<close>

theorem load_config_optional_keys_witness:
  "subjects (load_config \<lparr>subjects = JNull, daily_goal = JNull, theme = JNull\<rparr>
      (Content (JObject [(''daily_goal'', JInt 300), (''theme'', JString ''dark'')])))
     = DEFAULT_SUBJECTS
   \<and> daily_goal (load_config \<lparr>subjects = JNull, daily_goal = JNull, theme = JNull\<rparr>
      (Content (JObject [(''daily_goal'', JInt 300), (''theme'', JString ''dark'')])))
     = JInt 300
   \<and> theme (load_config \<lparr>subjects = JNull, daily_goal = JNull, theme = JNull\<rparr>
      (Content (JObject [(''daily_goal'', JInt 300), (''theme'', JString ''dark'')])))
     = JString ''dark''
   \<and> load_config \<lparr>subjects = JNull, daily_goal = JNull, theme = JNull\<rparr> (Content (JArray []))
     = \<lparr>subjects = DEFAULT_SUBJECTS, daily_goal = JInt 690, theme = JString ''system''\<rparr>"
  using load_config_optional_keys [of "[(''daily_goal'', JInt 300), (''theme'', JString ''dark'')]"
      JNull "\<lparr>subjects = JNull, daily_goal = JNull, theme = JNull\<rparr>" "JInt 300" "JString ''dark''"
      "JArray []"]
  by (simp add: json_dict_def is_object_def)

subsection \<open>Writing and reading records\<close>

lemmas step_csv = process_char_def start_record_def start_field_def end_record_def
  save_field_def add_char_def

lemma chars_distinct:
  "CR \<noteq> LF" "CR \<noteq> DQUOTE" "CR \<noteq> COMMA" "LF \<noteq> DQUOTE" "LF \<noteq> COMMA" "DQUOTE \<noteq> COMMA"
  "LF \<noteq> CR" "DQUOTE \<noteq> CR" "COMMA \<noteq> CR" "DQUOTE \<noteq> LF" "COMMA \<noteq> LF" "COMMA \<noteq> DQUOTE"
  by (simp_all add: CR_def LF_def DQUOTE_def COMMA_def)

lemma plain_chars:
  "\<not> list_ex special f \<Longrightarrow>
   foldl process_char \<lparr>r_state = IN_FIELD, r_field = b, r_fields = fs, r_records = rs\<rparr> f
     = \<lparr>r_state = IN_FIELD, r_field = b @ f, r_fields = fs, r_records = rs\<rparr>"
  by (induction f arbitrary: b) (simp_all add: step_csv special_def)

lemma quoted_chars:
  "foldl process_char \<lparr>r_state = IN_QUOTED_FIELD, r_field = b, r_fields = fs, r_records = rs\<rparr>
      (escape_quotes f)
     = \<lparr>r_state = IN_QUOTED_FIELD, r_field = b @ f, r_fields = fs, r_records = rs\<rparr>"
  by (induction f arbitrary: b) (simp_all add: step_csv escape_quotes_def)

lemma field_read:
  "foldl process_char \<lparr>r_state = START_FIELD, r_field = [], r_fields = fs, r_records = rs\<rparr>
      (csv_field f)
     = (if list_ex special f
        then \<lparr>r_state = QUOTE_IN_QUOTED_FIELD, r_field = f, r_fields = fs, r_records = rs\<rparr>
        else if f = [] then \<lparr>r_state = START_FIELD, r_field = [], r_fields = fs, r_records = rs\<rparr>
        else \<lparr>r_state = IN_FIELD, r_field = f, r_fields = fs, r_records = rs\<rparr>)"
proof (cases "list_ex special f")
  case True
  have "foldl process_char \<lparr>r_state = START_FIELD, r_field = [], r_fields = fs, r_records = rs\<rparr>
          (DQUOTE # escape_quotes f @ [DQUOTE])
        = \<lparr>r_state = QUOTE_IN_QUOTED_FIELD, r_field = f, r_fields = fs, r_records = rs\<rparr>"
    by (simp add: step_csv is_newline_def chars_distinct quoted_chars)
  then show ?thesis using True by (simp add: csv_field_def)
next
  case False
  show ?thesis
  proof (cases f)
    case Nil
    then show ?thesis by (simp add: csv_field_def)
  next
    case (Cons c cs)
    then have c: "\<not> special c" and cs: "\<not> list_ex special cs"
      using False by simp_all
    have "process_char \<lparr>r_state = START_FIELD, r_field = [], r_fields = fs, r_records = rs\<rparr> c
        = \<lparr>r_state = IN_FIELD, r_field = [c], r_fields = fs, r_records = rs\<rparr>"
      using c by (simp add: step_csv special_def)
    then show ?thesis
      using False Cons plain_chars [OF cs] by (simp add: csv_field_def)
  qed
qed

lemma field_comma:
  "foldl process_char \<lparr>r_state = START_FIELD, r_field = [], r_fields = fs, r_records = rs\<rparr>
      (csv_field f @ [COMMA])
     = \<lparr>r_state = START_FIELD, r_field = [], r_fields = fs @ [f], r_records = rs\<rparr>"
  by (cases "list_ex special f"; cases "f = []")
     (simp_all add: field_read step_csv is_newline_def chars_distinct)

lemma field_crlf:
  "foldl process_char \<lparr>r_state = START_FIELD, r_field = [], r_fields = fs, r_records = rs\<rparr>
      (csv_field f @ [CR, LF])
     = \<lparr>r_state = START_RECORD, r_field = [], r_fields = [], r_records = rs @ [fs @ [f]]\<rparr>"
  by (cases "list_ex special f"; cases "f = []")
     (simp_all add: field_read step_csv is_newline_def chars_distinct)

lemma join_crlf:
  "row \<noteq> [] \<Longrightarrow>
   foldl process_char \<lparr>r_state = START_FIELD, r_field = [], r_fields = fs, r_records = rs\<rparr>
      (csv_join row @ [CR, LF])
     = \<lparr>r_state = START_RECORD, r_field = [], r_fields = [], r_records = rs @ [fs @ row]\<rparr>"
proof (induction row arbitrary: fs rule: csv_join.induct)
  case 1
  then show ?case by simp
next
  case (2 f)
  then show ?case using field_crlf [of fs rs f] by simp
next
  case (3 f g gs)
  have "foldl process_char \<lparr>r_state = START_FIELD, r_field = [], r_fields = fs, r_records = rs\<rparr>
      (csv_join (f # g # gs) @ [CR, LF])
    = foldl process_char
        (foldl process_char \<lparr>r_state = START_FIELD, r_field = [], r_fields = fs, r_records = rs\<rparr>
           (csv_field f @ [COMMA]))
        (csv_join (g # gs) @ [CR, LF])"
    by simp
  also have "\<dots> = \<lparr>r_state = START_RECORD, r_field = [], r_fields = [],
                     r_records = rs @ [(fs @ [f]) @ g # gs]\<rparr>"
    unfolding field_comma by (rule "3.IH") simp
  finally show ?case by simp
qed

lemma line_from_field:
  "row \<noteq> [] \<Longrightarrow>
   foldl process_char \<lparr>r_state = START_FIELD, r_field = [], r_fields = [], r_records = rs\<rparr>
      (csv_writerow row)
     = \<lparr>r_state = START_RECORD, r_field = [], r_fields = [], r_records = rs @ [row]\<rparr>"
proof (cases "row = [[]]")
  case True
  then show ?thesis
    by (simp add: csv_writerow_def step_csv is_newline_def chars_distinct)
next
  case False
  assume "row \<noteq> []"
  then show ?thesis
    using False join_crlf [of row "[]" rs] by (simp add: csv_writerow_def)
qed

lemma line_head: "row \<noteq> [] \<Longrightarrow> \<exists>c cs. csv_writerow row = c # cs \<and> \<not> is_newline c"
proof (cases row)
  case Nil
  assume "row \<noteq> []"
  with Nil show ?thesis by simp
next
  case (Cons f gs)
  show ?thesis
  proof (cases "list_ex special f")
    case True
    then have "csv_field f = DQUOTE # escape_quotes f @ [DQUOTE]"
      by (simp add: csv_field_def)
    then show ?thesis using Cons True
      by (cases gs) (auto simp: csv_writerow_def is_newline_def chars_distinct)
  next
    case False
    show ?thesis
    proof (cases f)
      case Nil
      then show ?thesis using Cons
        by (cases gs) (auto simp: csv_writerow_def csv_field_def is_newline_def chars_distinct)
    next
      case (Cons c cs)
      then have "\<not> is_newline c" using False by (simp add: special_def)
      then show ?thesis using \<open>row = f # gs\<close> Cons False
        by (cases gs) (auto simp: csv_writerow_def csv_field_def)
    qed
  qed
qed

lemma first_char:
  "\<not> is_newline c \<Longrightarrow> st = START_RECORD \<or> st = AFTER_CR \<Longrightarrow>
   process_char \<lparr>r_state = st, r_field = [], r_fields = [], r_records = rs\<rparr> c
     = process_char \<lparr>r_state = START_FIELD, r_field = [], r_fields = [], r_records = rs\<rparr> c"
  by (auto simp: step_csv is_newline_def)

lemma line_read:
  assumes "row \<noteq> []" "st = START_RECORD \<or> st = AFTER_CR"
  shows "foldl process_char \<lparr>r_state = st, r_field = [], r_fields = [], r_records = rs\<rparr>
      (csv_writerow row)
     = \<lparr>r_state = START_RECORD, r_field = [], r_fields = [], r_records = rs @ [row]\<rparr>"
proof -
  obtain c cs where l: "csv_writerow row = c # cs" "\<not> is_newline c"
    using line_head [OF assms(1)] by blast
  have "foldl process_char \<lparr>r_state = st, r_field = [], r_fields = [], r_records = rs\<rparr> (c # cs)
      = foldl process_char \<lparr>r_state = START_FIELD, r_field = [], r_fields = [], r_records = rs\<rparr> (c # cs)"
    using first_char [OF l(2) assms(2)] by simp
  then show ?thesis
    using line_from_field [OF assms(1), of rs] l(1) by simp
qed

lemma step_between:
  assumes "between_records (process_char rd c)"
    and "between_records rd \<longrightarrow> r_field rd = [] \<and> r_fields rd = []"
  shows "r_field (process_char rd c) = [] \<and> r_fields (process_char rd c) = []"
proof (cases rd)
  case (fields st b fs rs)
  show ?thesis
    using assms unfolding fields
    by (cases st) (auto simp: between_records_def step_csv split: if_splits)
qed

lemma between_empty:
  "between_records (foldl process_char reader0 tx) \<Longrightarrow>
   r_field (foldl process_char reader0 tx) = [] \<and> r_fields (foldl process_char reader0 tx) = []"
proof (induction tx rule: rev_induct)
  case Nil
  then show ?case by (simp add: reader0_def)
next
  case (snoc c tx)
  have "between_records (process_char (foldl process_char reader0 tx) c)"
    using snoc.prems by simp
  from step_between [OF this] snoc.IH show ?case by simp
qed

lemma reader_between:
  assumes "record_ended tx"
  shows "\<exists>st. (st = START_RECORD \<or> st = AFTER_CR) \<and> foldl process_char reader0 tx
     = \<lparr>r_state = st, r_field = [], r_fields = [], r_records = csv_reader tx\<rparr>"
proof -
  let ?rd = "foldl process_char reader0 tx"
  have b: "between_records ?rd" using assms by (simp add: record_ended_def)
  then have "r_field ?rd = []" "r_fields ?rd = []" using between_empty by blast+
  moreover have "csv_reader tx = r_records ?rd"
    using b by (simp add: csv_reader_def finish_def)
  ultimately have "?rd = \<lparr>r_state = r_state ?rd, r_field = [], r_fields = [],
      r_records = csv_reader tx\<rparr>"
    by (cases "foldl process_char reader0 tx") simp
  then show ?thesis using b by (auto simp: between_records_def)
qed

lemma append_record:
  assumes "record_ended tx" "row \<noteq> []"
  shows "csv_reader (tx @ csv_writerow row) = csv_reader tx @ [row]"
    and "record_ended (tx @ csv_writerow row)"
proof -
  obtain st where st: "st = START_RECORD \<or> st = AFTER_CR"
    "foldl process_char reader0 tx
       = \<lparr>r_state = st, r_field = [], r_fields = [], r_records = csv_reader tx\<rparr>"
    using reader_between [OF assms(1)] by blast
  have run: "foldl process_char reader0 (tx @ csv_writerow row)
      = \<lparr>r_state = START_RECORD, r_field = [], r_fields = [], r_records = csv_reader tx @ [row]\<rparr>"
    using line_read [OF assms(2) st(1)] st(2) by simp
  show "csv_reader (tx @ csv_writerow row) = csv_reader tx @ [row]"
    unfolding csv_reader_def [of "tx @ csv_writerow row"] run
    by (simp add: finish_def between_records_def)
  show "record_ended (tx @ csv_writerow row)"
    unfolding record_ended_def run by (simp add: between_records_def)
qed

lemma record_ended_Nil: "record_ended []" "csv_reader [] = []"
  by (simp_all add: record_ended_def csv_reader_def finish_def between_records_def reader0_def)

text \<open>What the writer has written, the reader reads.\<close>

lemma written_rows_read:
  "\<forall>row \<in> set rows. row \<noteq> [] \<Longrightarrow>
   csv_reader (concat (map csv_writerow rows)) = rows
   \<and> record_ended (concat (map csv_writerow rows))"
proof (induction rows rule: rev_induct)
  case Nil
  then show ?case by (simp add: record_ended_Nil)
next
  case (snoc row rows)
  then have ih: "csv_reader (concat (map csv_writerow rows)) = rows"
    "record_ended (concat (map csv_writerow rows))" and ne: "row \<noteq> []"
    by simp_all
  from append_record [OF ih(2) ne] ih(1) show ?case by simp
qed

subsection \<open>The daily goal\<close>

lemma hours_minutes_Fin: "\<exists>h m. hours_minutes (Fin x) = Inr (h, m)"
  by (simp add: hours_minutes_def py_floordiv60_def py_mod60_def py_int_def bind_exn_def)

lemma hours_minutes_not_finite: "\<not> is_finite x \<Longrightarrow> hours_minutes x = Inl ValueError"
  by (cases x) (simp_all add: hours_minutes_def py_floordiv60_def py_int_def bind_exn_def
      is_finite_def)

lemma today_total_goal [simp]: "today_total py (self\<lparr>app_daily_goal := g\<rparr>) = today_total py self"
  by (simp add: today_total_def)

lemma update_goal_progress_finite:
  assumes "is_finite (today_total py self)"
  shows "\<exists>bar label. update_goal_progress py (self\<lparr>app_daily_goal := JInt g\<rparr>)
     = (self\<lparr>app_daily_goal := JInt g, progress_bar := bar, progress_label := label\<rparr>, None)"
proof -
  obtain x where x: "today_total py self = Fin x"
    using assms by (cases "today_total py self") (simp_all add: is_finite_def)
  obtain h m where t: "hours_minutes (Fin x) = Inr (h, m)"
    using hours_minutes_Fin by blast
  obtain gh gm where g: "hours_minutes (Fin (of_int g)) = Inr (gh, gm)"
    using hours_minutes_Fin by blast
  have "update_goal_progress py (self\<lparr>app_daily_goal := JInt g\<rparr>)
      = (self\<lparr>app_daily_goal := JInt g,
              progress_bar := (if py_positive (Fin (of_int g))
                               then py_truediv (Fin x) (Fin (of_int g)) else 0),
              progress_label := ''Today: '' @ str_int h @ '' hr '' @ str_int m @ '' min / ''
                         @ str_int gh @ '' hr '' @ str_int gm @ '' min''\<rparr>, None)"
    by (simp add: update_goal_progress_def number_of_def Let_def x t g bind_exn_def)
  then show ?thesis by blast
qed

lemma update_goal_progress_not_finite:
  assumes "\<not> is_finite (today_total py self)"
  shows "update_goal_progress py (self\<lparr>app_daily_goal := JInt g\<rparr>)
     = (self\<lparr>app_daily_goal := JInt g,
             progress_bar := (if 0 < g then py_truediv (today_total py self) (Fin (of_int g)) else 0)\<rparr>,
        Some ValueError)"
  using hours_minutes_not_finite [OF assms]
  by (simp add: update_goal_progress_def number_of_def Let_def bind_exn_def py_positive_def)

lemma set_goal_invalid:
  "int_of py (goal_var self) = None \<or> (\<exists>n. int_of py (goal_var self) = Some n \<and> n \<le> 0) \<Longrightarrow>
   set_goal py self = (invalid_goal self, None)"
  by (auto simp: set_goal_def)

lemma set_goal_unfold:
  assumes "int_of py (goal_var self) = Some n" "0 < n"
  shows "set_goal py self =
     (case update_goal_progress py (self\<lparr>app_daily_goal := JInt (min n 1440)\<rparr>) of
        (self2, Some e) \<Rightarrow> if e = ValueError then (invalid_goal self2, None) else (self2, Some e)
      | (self2, None) \<Rightarrow>
          (self2\<lparr>dialogs := dialogs self2
                   @ [showinfo ''Goal Updated''
                        (''Daily goal set to '' @ str_int (min n 1440) @ '' minutes.'')],
                 config := (config self2)\<lparr>daily_goal := app_daily_goal self2\<rparr>,
                 conf_file := Content (JObject
                   [(''subjects'', subjects (config self2)),
                    (''daily_goal'', app_daily_goal self2),
                    (''theme'', theme (config self2))])\<rparr>,
           None))"
proof -
  have sc: "save_config (c\<lparr>daily_goal := d\<rparr>) (subjects c) d JNull
      = (c\<lparr>daily_goal := d\<rparr>,
         Content (JObject [(''subjects'', subjects c), (''daily_goal'', d), (''theme'', theme c)]))"
    for c d
    by (simp add: save_config_def Let_def)
  show ?thesis
  proof (cases "n > 1440")
    case True
    obtain s2 eo where u: "update_goal_progress py (self\<lparr>app_daily_goal := JInt 1440\<rparr>) = (s2, eo)"
      by (cases "update_goal_progress py (self\<lparr>app_daily_goal := JInt 1440\<rparr>)")
    have m: "min n 1440 = 1440" using True by simp
    show ?thesis
      using assms True unfolding m
      by (cases eo) (simp_all add: set_goal_def u Let_def sc)
  next
    case False
    obtain s2 eo where u: "update_goal_progress py (self\<lparr>app_daily_goal := JInt n\<rparr>) = (s2, eo)"
      by (cases "update_goal_progress py (self\<lparr>app_daily_goal := JInt n\<rparr>)")
    have m: "min n 1440 = n" using False by simp
    show ?thesis
      using assms False unfolding m
      by (cases eo) (simp_all add: set_goal_def u Let_def sc)
  qed
qed

lemma set_goal_finite:
  assumes "int_of py (goal_var self) = Some n" "0 < n" "is_finite (today_total py self)"
  shows "snd (set_goal py self) = None"
    and "app_daily_goal (fst (set_goal py self)) = JInt (min n 1440)"
    and "daily_goal (config (fst (set_goal py self))) = JInt (min n 1440)"
    and "conf_file (fst (set_goal py self)) =
           Content (JObject [(''subjects'', subjects (config self)),
                             (''daily_goal'', JInt (min n 1440)),
                             (''theme'', theme (config self))])"
    and "dialogs (fst (set_goal py self)) = dialogs self
           @ [showinfo ''Goal Updated'' (''Daily goal set to '' @ str_int (min n 1440) @ '' minutes.'')]"
proof -
  obtain bar label where u: "update_goal_progress py (self\<lparr>app_daily_goal := JInt (min n 1440)\<rparr>)
     = (self\<lparr>app_daily_goal := JInt (min n 1440), progress_bar := bar, progress_label := label\<rparr>, None)"
    using update_goal_progress_finite [OF assms(3)] by blast
  show "snd (set_goal py self) = None"
    "app_daily_goal (fst (set_goal py self)) = JInt (min n 1440)"
    "daily_goal (config (fst (set_goal py self))) = JInt (min n 1440)"
    "conf_file (fst (set_goal py self)) =
           Content (JObject [(''subjects'', subjects (config self)),
                             (''daily_goal'', JInt (min n 1440)),
                             (''theme'', theme (config self))])"
    "dialogs (fst (set_goal py self)) = dialogs self
           @ [showinfo ''Goal Updated'' (''Daily goal set to '' @ str_int (min n 1440) @ '' minutes.'')]"
    unfolding set_goal_unfold [OF assms(1,2)] u by simp_all
qed

lemma set_goal_not_finite:
  assumes "int_of py (goal_var self) = Some n" "0 < n" "\<not> is_finite (today_total py self)"
  shows "set_goal py self =
     (self\<lparr>app_daily_goal := JInt (min n 1440),
           progress_bar := py_truediv (today_total py self) (Fin (of_int (min n 1440))),
           dialogs := dialogs self
             @ [showerror ''Invalid Input'' ''Please enter a valid number for daily goal.'']\<rparr>,
      None)"
  unfolding set_goal_unfold [OF assms(1,2)] update_goal_progress_not_finite [OF assms(3)]
  using assms(2) by (simp add: invalid_goal_def)

text \<open>
  C10.  \<^verbatim>\<open>set_goal\<close> changes the daily goal that the application holds (\<^verbatim>\<open>self.daily_goal\<close>)
  only if the entry parses as a positive integer, and the goal then is that integer capped
  at 1440, whatever the files hold.  When today's total is a finite number, the capped
  goal also goes to the configuration and is written to the configuration file with the
  subjects and the theme as they were, the dialog reports it, and no exception leaves the
  callback.  When today's total is not finite (the log holds a row of today with \<^verbatim>\<open>nan\<close> or
  \<^verbatim>\<open>inf\<close> minutes), computing the progress label raises \<^verbatim>\<open>ValueError\<close> after the goal has
  been changed, and the handler shows the error dialog: the progress bar has moved, the
  configuration and its file are as they were.  On an entry that does not parse, or
  parses as an integer that is not positive, the state is unchanged except for one error
  dialog.
\<close>

theorem set_goal_guarded:
  "(app_daily_goal (fst (set_goal py self)) \<noteq> app_daily_goal self \<longrightarrow>
      (\<exists>k. int_of py (goal_var self) = Some k \<and> 0 < k))
   \<and> (int_of py (goal_var self) = Some n \<and> 0 < n \<longrightarrow>
        app_daily_goal (fst (set_goal py self)) = JInt (min n 1440))
   \<and> (int_of py (goal_var self) = Some n \<and> 0 < n \<and> is_finite (today_total py self) \<longrightarrow>
        snd (set_goal py self) = None
        \<and> daily_goal (config (fst (set_goal py self))) = JInt (min n 1440)
        \<and> conf_file (fst (set_goal py self)) =
             Content (JObject [(''subjects'', subjects (config self)),
                               (''daily_goal'', JInt (min n 1440)),
                               (''theme'', theme (config self))])
        \<and> dialogs (fst (set_goal py self)) = dialogs self
             @ [showinfo ''Goal Updated''
                  (''Daily goal set to '' @ str_int (min n 1440) @ '' minutes.'')])
   \<and> (int_of py (goal_var self) = Some n \<and> 0 < n \<and> \<not> is_finite (today_total py self) \<longrightarrow>
        set_goal py self =
          (self\<lparr>app_daily_goal := JInt (min n 1440),
                progress_bar := py_truediv (today_total py self) (Fin (of_int (min n 1440))),
                dialogs := dialogs self
                  @ [showerror ''Invalid Input'' ''Please enter a valid number for daily goal.'']\<rparr>,
           None))
   \<and> (int_of py (goal_var self) = None \<or> (\<exists>k. int_of py (goal_var self) = Some k \<and> k \<le> 0) \<longrightarrow>
        set_goal py self =
          (self\<lparr>dialogs := dialogs self
              @ [showerror ''Invalid Input'' ''Please enter a valid number for daily goal.'']\<rparr>,
           None))"
proof (intro conjI impI)
  assume ch: "app_daily_goal (fst (set_goal py self)) \<noteq> app_daily_goal self"
  show "\<exists>k. int_of py (goal_var self) = Some k \<and> 0 < k"
  proof (rule ccontr)
    assume "\<not> (\<exists>k. int_of py (goal_var self) = Some k \<and> 0 < k)"
    then have "int_of py (goal_var self) = None \<or> (\<exists>k. int_of py (goal_var self) = Some k \<and> k \<le> 0)"
      by (cases "int_of py (goal_var self)") (auto simp: not_less)
    then have "set_goal py self = (invalid_goal self, None)"
      by (rule set_goal_invalid)
    with ch show False by (simp add: invalid_goal_def)
  qed
next
  assume a: "int_of py (goal_var self) = Some n \<and> 0 < n"
  show "app_daily_goal (fst (set_goal py self)) = JInt (min n 1440)"
  proof (cases "is_finite (today_total py self)")
    case True
    then show ?thesis using a set_goal_finite(2) by blast
  next
    case False
    then show ?thesis using a set_goal_not_finite [of py self n] by simp
  qed
next
  assume a: "int_of py (goal_var self) = Some n \<and> 0 < n \<and> is_finite (today_total py self)"
  then show "snd (set_goal py self) = None"
    "daily_goal (config (fst (set_goal py self))) = JInt (min n 1440)"
    "conf_file (fst (set_goal py self)) =
             Content (JObject [(''subjects'', subjects (config self)),
                               (''daily_goal'', JInt (min n 1440)),
                               (''theme'', theme (config self))])"
    "dialogs (fst (set_goal py self)) = dialogs self
             @ [showinfo ''Goal Updated''
                  (''Daily goal set to '' @ str_int (min n 1440) @ '' minutes.'')]"
    using set_goal_finite [of py self n] by simp_all
next
  assume "int_of py (goal_var self) = Some n \<and> 0 < n \<and> \<not> is_finite (today_total py self)"
  then show "set_goal py self =
          (self\<lparr>app_daily_goal := JInt (min n 1440),
                progress_bar := py_truediv (today_total py self) (Fin (of_int (min n 1440))),
                dialogs := dialogs self
                  @ [showerror ''Invalid Input'' ''Please enter a valid number for daily goal.'']\<rparr>,
           None)"
    using set_goal_not_finite [of py self n] by simp
next
  assume "int_of py (goal_var self) = None \<or> (\<exists>k. int_of py (goal_var self) = Some k \<and> k \<le> 0)"
  then show "set_goal py self =
          (self\<lparr>dialogs := dialogs self
              @ [showerror ''Invalid Input'' ''Please enter a valid number for daily goal.'']\<rparr>,
           None)"
    using set_goal_invalid [of py self] by (simp add: invalid_goal_def)
qed

lemma header_log_read: "csv_reader (csv_writerow LOG_HEADER) = [LOG_HEADER]"
  using written_rows_read [of "[LOG_HEADER]"] by (simp add: LOG_HEADER_def)

lemma nan_log_read:
  "csv_reader nan_log = [LOG_HEADER, [''2024-05-01'', ''08:00:00'', ''Math'', ''nan'']]"
  using written_rows_read [of "[LOG_HEADER, [''2024-05-01'', ''08:00:00'', ''Math'', ''nan'']]"]
  by (simp add: nan_log_def LOG_HEADER_def)

lemma clock0_date: "str_date clock0 = ''2024-05-01''"
  by (simp add: clock0_def str_date_def show4_def show2_def digit_char_def)

lemma today_total_app0: "today_total py0 (app0\<lparr>goal_var := g\<rparr>) = Fin 0"
  by (simp add: today_total_def py0_def app0_def CSVLogger_init_def read_log_def header_log_read
      clock0_date get_today_minutes_def DictReader_def zero_pyfloat_def)

lemma today_total_nan:
  "today_total py0 (app0\<lparr>goal_var := g, log_file := Some nan_log\<rparr>) = NaN"
  by (simp add: today_total_def py0_def read_log_def nan_log_read clock0_date eval_log)

lemma int_dec_samples:
  "int_dec ''2000'' = Some 2000" "int_dec ''500'' = Some 500" "int_dec ''abc'' = None"
  "int_dec ''-5'' = Some (- 5)"
  by (simp_all add: int_dec_def digit_val_def)

text \<open>
  The entries \<^verbatim>\<open>2000\<close> (capped to 1440 and saved), \<^verbatim>\<open>500\<close> on a day whose log holds a session
  of \<^verbatim>\<open>nan\<close> minutes (stored, then the error dialog, nothing saved), \<^verbatim>\<open>abc\<close> and \<^verbatim>\<open>-5\<close>
  (both refused).
\<close>

theorem set_goal_guarded_witness:
  "app_daily_goal (fst (set_goal py0 (app0\<lparr>goal_var := ''2000''\<rparr>))) = JInt 1440
   \<and> conf_file (fst (set_goal py0 (app0\<lparr>goal_var := ''2000''\<rparr>))) =
       Content (JObject [(''subjects'', DEFAULT_SUBJECTS), (''daily_goal'', JInt 1440),
                         (''theme'', JString ''system'')])
   \<and> set_goal py0 (app0\<lparr>goal_var := ''500'', log_file := Some nan_log\<rparr>) =
       (app0\<lparr>goal_var := ''500'', log_file := Some nan_log, app_daily_goal := JInt 500,
             progress_bar := NaN,
             dialogs := [showerror ''Invalid Input'' ''Please enter a valid number for daily goal.'']\<rparr>,
        None)
   \<and> set_goal py0 (app0\<lparr>goal_var := ''abc''\<rparr>) =
       (app0\<lparr>goal_var := ''abc'',
             dialogs := [showerror ''Invalid Input'' ''Please enter a valid number for daily goal.'']\<rparr>,
        None)
   \<and> set_goal py0 (app0\<lparr>goal_var := ''-5''\<rparr>) =
       (app0\<lparr>goal_var := ''-5'',
             dialogs := [showerror ''Invalid Input'' ''Please enter a valid number for daily goal.'']\<rparr>,
        None)"
proof -
  have py: "int_of py0 = int_dec" by (simp add: py0_def)
  have a0: "config app0 = config_defaults" "dialogs app0 = []"
    by (simp_all add: app0_def)
  note g1 = set_goal_guarded [where py = py0 and self = "app0\<lparr>goal_var := ''2000''\<rparr>" and n = 2000]
  note g2 = set_goal_guarded [where py = py0
      and self = "app0\<lparr>goal_var := ''500'', log_file := Some nan_log\<rparr>" and n = 500]
  note g3 = set_goal_guarded [where py = py0 and self = "app0\<lparr>goal_var := ''abc''\<rparr>" and n = 0]
  note g4 = set_goal_guarded [where py = py0 and self = "app0\<lparr>goal_var := ''-5''\<rparr>" and n = 0]
  show ?thesis
    using g1 g2 g3 g4
    by (simp add: py int_dec_samples today_total_app0 today_total_nan is_finite_def a0
        config_defaults_def py_truediv_def)
qed

subsection \<open>The countdown\<close>

lemma update_timer_positive:
  assumes "0 < remaining_time self"
  shows "remaining_time (fst (update_timer py self)) = remaining_time self - 1"
    and "armed (fst (update_timer py self)) = (if timer_running self then armed self + 1 else armed self)"
    and "timer_running (fst (update_timer py self)) = timer_running self"
    and "snd (update_timer py self) = None"
  using assms by (simp_all add: update_timer_def Let_def)

lemma update_goal_progress_timer:
  "remaining_time (fst (update_goal_progress py s)) = remaining_time s
   \<and> armed (fst (update_goal_progress py s)) = armed s
   \<and> timer_running (fst (update_goal_progress py s)) = timer_running s"
  by (simp add: update_goal_progress_def Let_def split: option.splits sum.splits prod.splits)

lemma session_complete_timer:
  "remaining_time (fst (session_complete py s)) = remaining_time s
   \<and> armed (fst (session_complete py s)) = armed s
   \<and> timer_running (fst (session_complete py s)) = timer_running s"
proof (cases "float_of py (duration_var s)")
  case None
  then show ?thesis by (simp add: session_complete_def)
next
  case (Some d)
  let ?s2 = "log_session py s (subject_var s) d"
  obtain s3 eo where u: "update_goal_progress py ?s2 = (s3, eo)"
    by (cases "update_goal_progress py ?s2")
  have "remaining_time s3 = remaining_time s" "armed s3 = armed s"
    "timer_running s3 = timer_running s"
    using update_goal_progress_timer [of py ?s2] u by (simp_all add: log_session_def)
  then show ?thesis
    using Some u
    by (cases eo; cases "py_int d"; simp add: session_complete_def Let_def)
qed

lemma update_timer_elapsed:
  assumes "remaining_time self \<le> 0"
  shows "remaining_time (fst (update_timer py self)) = remaining_time self"
    and "armed (fst (update_timer py self)) = armed self"
    and "\<not> timer_running self \<Longrightarrow> \<not> timer_running (fst (update_timer py self))"
proof -
  let ?s1 = "self\<lparr>timer_label := ''00:00:00''\<rparr>"
  obtain s eo where sc: "session_complete py ?s1 = (s, eo)"
    by (cases "session_complete py ?s1")
  have t: "remaining_time s = remaining_time self" "armed s = armed self"
    using session_complete_timer [of py ?s1] sc by simp_all
  show "remaining_time (fst (update_timer py self)) = remaining_time self"
    "armed (fst (update_timer py self)) = armed self"
    using assms t by (cases eo; simp add: update_timer_def Let_def sc)+
  show "\<not> timer_running self \<Longrightarrow> \<not> timer_running (fst (update_timer py self))"
    using assms by (simp add: update_timer_def Let_def)
qed

lemma tick_stopped:
  assumes "\<not> timer_running s"
  shows "\<not> timer_running (tick py s)"
    and "remaining_time s - int (armed s) \<le> remaining_time (tick py s) - int (armed (tick py s))"
    and "remaining_time (tick py s) \<le> remaining_time s"
    and "armed (tick py s) \<le> armed s"
proof -
  let ?s = "s\<lparr>armed := armed s - 1\<rparr>"
  have nr: "\<not> timer_running ?s" using assms by simp
  show "\<not> timer_running (tick py s)"
    using assms update_timer_positive(3) [of ?s py] update_timer_elapsed(3) [of ?s py]
    by (cases "0 < remaining_time s") (auto simp: tick_def)
  show "remaining_time s - int (armed s) \<le> remaining_time (tick py s) - int (armed (tick py s))"
    using assms update_timer_positive(1,2) [of ?s py] update_timer_elapsed(1,2) [of ?s py]
    by (cases "0 < remaining_time s") (auto simp: tick_def)
  show "remaining_time (tick py s) \<le> remaining_time s"
    using assms update_timer_positive(1) [of ?s py] update_timer_elapsed(1) [of ?s py]
    by (cases "0 < remaining_time s") (auto simp: tick_def)
  show "armed (tick py s) \<le> armed s"
    using assms update_timer_positive(2) [of ?s py] update_timer_elapsed(2) [of ?s py]
    by (cases "0 < remaining_time s") (auto simp: tick_def)
qed

lemma ticks_stopped:
  "\<not> timer_running s \<Longrightarrow>
   \<not> timer_running ((tick py ^^ n) s)
   \<and> remaining_time s - int (armed s)
        \<le> remaining_time ((tick py ^^ n) s) - int (armed ((tick py ^^ n) s))
   \<and> remaining_time ((tick py ^^ n) s) \<le> remaining_time s
   \<and> armed ((tick py ^^ n) s) \<le> armed s"
proof (induction n)
  case 0
  then show ?case by simp
next
  case (Suc n)
  then have ih: "\<not> timer_running ((tick py ^^ n) s)"
    "remaining_time s - int (armed s)
        \<le> remaining_time ((tick py ^^ n) s) - int (armed ((tick py ^^ n) s))"
    "remaining_time ((tick py ^^ n) s) \<le> remaining_time s"
    "armed ((tick py ^^ n) s) \<le> armed s"
    by simp_all
  from tick_stopped [OF ih(1), of py] ih show ?case
    by simp
qed

lemma update_timer_nonneg:
  "0 \<le> remaining_time s \<Longrightarrow> 0 \<le> remaining_time (fst (update_timer py s))"
  using update_timer_positive(1) [of s py] update_timer_elapsed(1) [of s py]
  by (cases "0 < remaining_time s") auto

lemma tick_nonneg: "0 \<le> remaining_time s \<Longrightarrow> 0 \<le> remaining_time (tick py s)"
  using update_timer_nonneg [of "s\<lparr>armed := armed s - 1\<rparr>" py] by (simp add: tick_def)

lemma ticks_nonneg: "0 \<le> remaining_time s \<Longrightarrow> 0 \<le> remaining_time ((tick py ^^ n) s)"
  by (induction n) (simp_all add: tick_nonneg)

lemma ticks_idle: "armed s = 0 \<Longrightarrow> (tick py ^^ n) s = s"
  by (induction n) (simp_all add: tick_def)

lemma float_dec_1: "float_dec ''1'' = Some (Fin 1)"
  by (simp add: float_dec_def unsigned_dec_def digit_val_def)

lemma started_fields:
  "timer_running (fst (toggle_timer py0 (app0\<lparr>duration_var := ''1'', subject_var := ''Math''\<rparr>)))"
  "remaining_time (fst (toggle_timer py0 (app0\<lparr>duration_var := ''1'', subject_var := ''Math''\<rparr>))) = 59"
  "armed (fst (toggle_timer py0 (app0\<lparr>duration_var := ''1'', subject_var := ''Math''\<rparr>))) = 1"
  "logged_time (fst (toggle_timer py0 (app0\<lparr>duration_var := ''1'', subject_var := ''Math''\<rparr>))) = 0"
  "duration_var (fst (toggle_timer py0 (app0\<lparr>duration_var := ''1'', subject_var := ''Math''\<rparr>))) = ''1''"
  by (simp_all add: toggle_timer_def start_countdown_def update_timer_def py0_def app0_def
      float_dec_1 py_mul60_def py_int_def Let_def)

lemma toggle_timer_pause_short:
  assumes "timer_running s" "float_of py (duration_var s) = Some d"
    and "py_int (py_mul60 d) = Inr t"
    and "\<not> real_of_int (t - remaining_time s - logged_time s) / 60 > 0.1"
  shows "fst (toggle_timer py s) = s\<lparr>timer_running := False, start_pause_btn := ''Start''\<rparr>"
  using assms by (simp add: toggle_timer_def pause_session_def Let_def)

lemma py0_float_of: "float_of py0 = float_dec"
  by (simp add: py0_def)

lemma paused_fields:
  "\<not> timer_running paused_app" "remaining_time paused_app = 59" "armed paused_app = 1"
proof -
  let ?s = "fst (toggle_timer py0 (app0\<lparr>duration_var := ''1'', subject_var := ''Math''\<rparr>))"
  have eq: "paused_app = ?s\<lparr>timer_running := False, start_pause_btn := ''Start''\<rparr>"
    unfolding paused_app_def
    by (rule toggle_timer_pause_short [where d = "Fin 1" and t = 60])
       (simp_all add: started_fields py0_float_of float_dec_1 py_mul60_def py_int_def)
  show "\<not> timer_running paused_app" "remaining_time paused_app = 59" "armed paused_app = 1"
    unfolding eq by (simp_all add: started_fields)
qed

text \<open>
  C8, as the code has it.  A call of \<^verbatim>\<open>update_timer\<close> with a positive \<^verbatim>\<open>remaining_time\<close>
  decrements it by exactly 1, whether or not the timer is running, and arms the next
  callback exactly when \<^verbatim>\<open>timer_running\<close> is true.  Once \<^verbatim>\<open>timer_running\<close> is false, ticks
  keep it false and arm nothing, so only the callbacks already armed can still fire:
  over any number of ticks \<^verbatim>\<open>remaining_time\<close> falls by at most the number of callbacks that
  were armed, and not at all when none was.  From a state with \<^verbatim>\<open>remaining_time >= 0\<close>
  no call of \<^verbatim>\<open>update_timer\<close> and no sequence of ticks makes it negative.
\<close>

theorem countdown_step:
  "(0 < remaining_time s \<longrightarrow>
      remaining_time (fst (update_timer py s)) = remaining_time s - 1
      \<and> armed (fst (update_timer py s)) = (if timer_running s then armed s + 1 else armed s))
   \<and> (\<not> timer_running s \<longrightarrow>
        \<not> timer_running ((tick py ^^ n) s)
        \<and> remaining_time s - int (armed s) \<le> remaining_time ((tick py ^^ n) s)
        \<and> remaining_time ((tick py ^^ n) s) \<le> remaining_time s
        \<and> armed ((tick py ^^ n) s) \<le> armed s)
   \<and> (armed s = 0 \<longrightarrow> (tick py ^^ n) s = s)
   \<and> (0 \<le> remaining_time s \<longrightarrow>
        0 \<le> remaining_time (fst (update_timer py s)) \<and> 0 \<le> remaining_time ((tick py ^^ n) s))"
  using update_timer_positive(1,2) [where self = s and py = py]
    ticks_stopped [where s = s and py = py and n = n] ticks_idle [where s = s and py = py and n = n]
    update_timer_nonneg [where s = s and py = py] ticks_nonneg [where s = s and py = py and n = n]
  by auto

text \<open>
  C8, as stated, fails: after a start and a pause the flag is false, the callback armed by
  the start is still pending, and when it fires it decrements \<^verbatim>\<open>remaining_time\<close>.
\<close>

theorem pending_tick_decrements_after_pause:
  "\<not> timer_running paused_app \<and> remaining_time (tick py0 paused_app) < remaining_time paused_app"
  using update_timer_positive(1) [where self = "paused_app\<lparr>armed := armed paused_app - 1\<rparr>" and py = py0]
  by (simp add: paused_fields tick_def)

text \<open>
  On the paused session: the pending callback takes 59 to 58 and arms nothing; three ticks
  leave the timer stopped with 58 or 59 seconds; with nothing armed, ticks do nothing.
\<close>

theorem countdown_step_witness:
  "remaining_time (fst (update_timer py0 paused_app)) = 58
   \<and> armed (fst (update_timer py0 paused_app)) = 1
   \<and> \<not> timer_running ((tick py0 ^^ 3) paused_app)
   \<and> 58 \<le> remaining_time ((tick py0 ^^ 3) paused_app)
   \<and> remaining_time ((tick py0 ^^ 3) paused_app) \<le> 59
   \<and> (tick py0 ^^ 3) app0 = app0"
  using countdown_step [where s = paused_app and py = py0 and n = 3]
    countdown_step [where s = app0 and py = py0 and n = 3]
  by (simp add: paused_fields) (simp add: app0_def)

subsection \<open>Appending to the log\<close>















subsection \<open>The hour bucketing\<close>

lemma hour_bounds:
  fixes c :: int
  shows "c div 3600000000 * 3600000000 \<le> c" "c < (c div 3600000000 + 1) * 3600000000"
  by (simp_all add: algebra_simps)

lemma overlap_step:
  fixes c e k k0 s :: int
  assumes "c < e" "k0 = c div 3600000000" "s = min e ((k0 + 1) * 3600000000)" "k0 \<le> k"
  shows "overlap c e k = (if k = k0 then s - c else 0) + overlap s e k"
proof -
  have b: "k0 * 3600000000 \<le> c" "c < (k0 + 1) * 3600000000"
    using hour_bounds [of c] assms(2) by simp_all
  show ?thesis
  proof (cases "k = k0")
    case True
    then show ?thesis using assms b unfolding overlap_def US_PER_HOUR_def by auto
  next
    case False
    then have "k0 + 1 \<le> k" using assms(4) by simp
    then have "(k0 + 1) * 3600000000 \<le> k * 3600000000" by simp
    then show ?thesis using False assms b unfolding overlap_def US_PER_HOUR_def by auto
  qed
qed

lemma overlap_before:
  fixes s e k :: int
  assumes "k < s div 3600000000"
  shows "overlap s e k = 0"
proof -
  have "k + 1 \<le> s div 3600000000" using assms by simp
  then have "(k + 1) * 3600000000 \<le> s div 3600000000 * 3600000000" by simp
  then have "(k + 1) * 3600000000 \<le> s" using hour_bounds(1) [of s] by linarith
  then show ?thesis unfolding overlap_def US_PER_HOUR_def by auto
qed

lemma hour_overlap_step:
  fixes c e :: int
  assumes "c < e"
  shows "hour_overlap c e h =
     (if c div 3600000000 mod 24 = int h then min e ((c div 3600000000 + 1) * 3600000000) - c else 0)
     + hour_overlap (min e ((c div 3600000000 + 1) * 3600000000)) e h"
proof -
  define k0 where "k0 = c div 3600000000"
  define s where "s = min e ((k0 + 1) * 3600000000)"
  let ?R = "{k0..e div 3600000000}"
  have cs: "c \<le> s" using hour_bounds(2) [of c] assms by (simp add: s_def k0_def)
  have k0s: "k0 \<le> s div 3600000000"
    unfolding k0_def using cs by (simp add: zdiv_mono1)
  have k0e: "k0 \<le> e div 3600000000"
    unfolding k0_def using assms by (simp add: zdiv_mono1)
  have "hour_overlap c e h = (\<Sum>k\<in>?R. if k mod 24 = int h then overlap c e k else 0)"
    by (simp add: hour_overlap_def US_PER_HOUR_def k0_def)
  also have "\<dots> = (\<Sum>k\<in>?R. (if k = k0 then (if k0 mod 24 = int h then s - c else 0) else 0)
                         + (if k mod 24 = int h then overlap s e k else 0))"
    by (rule sum.cong) (auto simp: overlap_step [OF assms k0_def s_def])
  also have "\<dots> = (\<Sum>k\<in>?R. if k = k0 then (if k0 mod 24 = int h then s - c else 0) else 0)
                   + (\<Sum>k\<in>?R. if k mod 24 = int h then overlap s e k else 0)"
    by (rule sum.distrib)
  also have "(\<Sum>k\<in>?R. if k = k0 then (if k0 mod 24 = int h then s - c else 0) else 0)
               = (if k0 mod 24 = int h then s - c else 0)"
    using k0e by (simp add: sum.delta')
  also have "(\<Sum>k\<in>?R. if k mod 24 = int h then overlap s e k else 0)
               = (\<Sum>k\<in>{s div 3600000000..e div 3600000000}. if k mod 24 = int h then overlap s e k else 0)"
    by (rule sum.mono_neutral_right) (use k0s in \<open>auto simp: overlap_before\<close>)
  also have "\<dots> = hour_overlap s e h"
    by (simp add: hour_overlap_def US_PER_HOUR_def)
  finally show ?thesis
    by (simp add: s_def k0_def)
qed

lemma hour_overlap_empty: "e \<le> c \<Longrightarrow> hour_overlap c e h = 0"
proof -
  assume "e \<le> c"
  then have z: "overlap c e k = 0" for k
    unfolding overlap_def US_PER_HOUR_def by auto
  show ?thesis by (simp add: hour_overlap_def z cong: if_cong)
qed

lemma slice_loop_shares:
  "length hours = 24 \<Longrightarrow> end_time \<le> DT_END - US_PER_HOUR \<Longrightarrow>
   snd (slice_loop current end_time hours) = None
   \<and> length (fst (slice_loop current end_time hours)) = 24
   \<and> (\<forall>h < 24. fst (slice_loop current end_time hours) ! h
                   = hours ! h + hour_share current end_time h)"
proof (induction current end_time hours rule: slice_loop.induct)
  case (1 current end_time hours)
  show ?case
  proof (cases "current < end_time")
    case False
    then have "slice_loop current end_time hours = (hours, None)"
      by (subst slice_loop.simps) simp
    then show ?thesis
      using False "1.prems" by (simp add: hour_share_def hour_overlap_empty)
  next
    case True
    define k0 where "k0 = current div 3600000000"
    define hour where "hour = nat (k0 mod 24)"
    define s where "s = min end_time ((k0 + 1) * 3600000000)"
    define m where "m = real_of_int (s - current) / 1000000 / 60"
    define hours' where "hours' = hours[hour := hours ! hour + m]"
    have fl: "current - current mod US_PER_HOUR + US_PER_HOUR = (k0 + 1) * 3600000000"
      by (simp add: US_PER_HOUR_def k0_def algebra_simps minus_mod_eq_mult_div)
    have no: "\<not> DT_END \<le> current - current mod US_PER_HOUR + US_PER_HOUR"
      using True "1.prems"(2) hour_bounds(1) [of current] unfolding fl
      by (simp add: k0_def US_PER_HOUR_def DT_END_def)
    have unf: "slice_loop current end_time hours = slice_loop s end_time hours'"
      using True no
      by (subst slice_loop.simps)
         (simp add: Let_def s_def hours'_def m_def hour_def k0_def US_PER_HOUR_def
            minus_mod_eq_div_mult algebra_simps)
    have len: "length hours' = 24" using "1.prems" by (simp add: hours'_def)
    have ih: "snd (slice_loop s end_time hours') = None
      \<and> length (fst (slice_loop s end_time hours')) = 24
      \<and> (\<forall>h < 24. fst (slice_loop s end_time hours') ! h = hours' ! h + hour_share s end_time h)"
      using "1.IH" [OF True refl refl no refl refl refl] len "1.prems"(2)
      unfolding fl by (simp add: s_def hours'_def m_def hour_def k0_def US_PER_HOUR_def)
    have hour24: "hour < 24" by (simp add: hour_def nat_less_iff)
    have step: "hours' ! h + hour_share s end_time h = hours ! h + hour_share current end_time h"
      if "h < 24" for h
    proof -
      have a: "hours' ! h = hours ! h + (if h = hour then m else 0)"
        using that "1.prems"(1) by (simp add: hours'_def nth_list_update)
      have eq: "(h = hour) = (k0 mod 24 = int h)"
        by (auto simp: hour_def)
      have b: "hour_share current end_time h = (if h = hour then m else 0) + hour_share s end_time h"
        unfolding hour_share_def hour_overlap_step [OF True, of h] eq
        by (simp add: s_def k0_def m_def add_divide_distrib)
      show ?thesis using a b by simp
    qed
    show ?thesis
      unfolding unf using ih step by simp
  qed
qed

lemma sum_list_update_add:
  "i < length xs \<Longrightarrow> sum_list (xs[i := xs ! i + d]) = sum_list xs + (d::real)"
  by (induction xs arbitrary: i) (auto split: nat.splits)

lemma slice_loop_total:
  "length hours = 24 \<Longrightarrow> end_time \<le> DT_END - US_PER_HOUR \<Longrightarrow> current \<le> end_time \<Longrightarrow>
   sum_list (fst (slice_loop current end_time hours))
     = sum_list hours + real_of_int (end_time - current) / 60000000"
proof (induction current end_time hours rule: slice_loop.induct)
  case (1 current end_time hours)
  show ?case
  proof (cases "current < end_time")
    case False
    then have "slice_loop current end_time hours = (hours, None)"
      by (subst slice_loop.simps) simp
    then show ?thesis
      using False "1.prems" by simp
  next
    case True
    define k0 where "k0 = current div 3600000000"
    define hour where "hour = nat (k0 mod 24)"
    define s where "s = min end_time ((k0 + 1) * 3600000000)"
    define m where "m = real_of_int (s - current) / 1000000 / 60"
    define hours' where "hours' = hours[hour := hours ! hour + m]"
    have fl: "current - current mod US_PER_HOUR + US_PER_HOUR = (k0 + 1) * 3600000000"
      by (simp add: US_PER_HOUR_def k0_def algebra_simps minus_mod_eq_mult_div)
    have no: "\<not> DT_END \<le> current - current mod US_PER_HOUR + US_PER_HOUR"
      using True "1.prems"(2) hour_bounds(1) [of current] unfolding fl
      by (simp add: k0_def US_PER_HOUR_def DT_END_def)
    have unf: "slice_loop current end_time hours = slice_loop s end_time hours'"
      using True no
      by (subst slice_loop.simps)
         (simp add: Let_def s_def hours'_def m_def hour_def k0_def US_PER_HOUR_def
            minus_mod_eq_div_mult algebra_simps)
    have len: "length hours' = 24" using "1.prems" by (simp add: hours'_def)
    have se: "s \<le> end_time" by (simp add: s_def)
    have ih: "sum_list (fst (slice_loop s end_time hours'))
            = sum_list hours' + real_of_int (end_time - s) / 60000000"
      using "1.IH" [OF True refl refl no refl refl refl] len "1.prems"(2) se
      unfolding fl by (simp add: s_def hours'_def m_def hour_def k0_def US_PER_HOUR_def)
    have hour24: "hour < 24" by (simp add: hour_def nat_less_iff)
    have "sum_list hours' = sum_list hours + m"
      unfolding hours'_def using hour24 "1.prems"(1) by (simp add: sum_list_update_add)
    then show ?thesis
      unfolding unf ih by (simp add: m_def field_simps)
  qed
qed

lemma round_half_even_int: "x \<in> \<int> \<Longrightarrow> real_of_int (round_half_even x) = x"
  by (auto simp: round_half_even_def Ints_def)

lemma map_of_dict_map_at:
  "map_of (dict_map_at k f d) k' = (if k' = k then map_option f (map_of d k) else map_of d k')"
  by (induction k f d rule: dict_map_at.induct) auto

lemma map_fst_dict_map_at: "map fst (dict_map_at k f d) = map fst d"
  by (induction k f d rule: dict_map_at.induct) auto

lemma hour_share_empty: "e \<le> s \<Longrightarrow> hour_share s e h = 0"
  by (simp add: hour_share_def hour_overlap_empty)

text \<open>The shares of a session in the hours of the day add up to its length.\<close>

lemma hour_share_total:
  assumes "s \<le> e" "e \<le> DT_END - US_PER_HOUR"
  shows "(\<Sum>h = 0..<24. hour_share s e h) = real_of_int (e - s) / 60000000"
proof -
  let ?L = "fst (slice_loop s e (replicate 24 0))"
  have len: "length ?L = 24" and nth: "\<forall>h < 24. ?L ! h = hour_share s e h"
    using slice_loop_shares [of "replicate 24 0" e s] assms(2) by simp_all
  have "sum_list ?L = real_of_int (e - s) / 60000000"
    using slice_loop_total [of "replicate 24 0" e s] assms by (simp add: sum_list_replicate)
  moreover have "sum_list ?L = (\<Sum>h = 0..<24. ?L ! h)"
    using sum_list_sum_nth [of ?L] len by simp
  moreover have "(\<Sum>h = 0..<24. ?L ! h) = (\<Sum>h = 0..<24. hour_share s e h)"
    by (rule sum.cong) (use nth in simp_all)
  ultimately show ?thesis by simp
qed

text \<open>The session that the code reads from a row is the well-formed session of the row.\<close>

lemma read_session_well_formed:
  "session_of strptime pf r = Some se \<Longrightarrow> read_session strptime pf r = Inr se"
  by (auto simp: session_of_def read_session_def bind_exn_def getitem_def py_float_def
      py_strptime_def timedelta_minutes_def datetime_add_def minutes_of_def Let_def
      split: option.splits pyfloat.splits if_splits)

lemma read_session_malformed:
  "session_of strptime pf r = None \<Longrightarrow> \<exists>e. read_session strptime pf r = Inl e"
  by (auto simp: session_of_def read_session_def bind_exn_def getitem_def py_float_def
      py_strptime_def timedelta_minutes_def datetime_add_def minutes_of_def Let_def
      split: option.splits pyfloat.splits if_splits)

lemma session_of_minutes:
  "session_of strptime pf r = Some (s, e) \<Longrightarrow>
   \<exists>x. minutes_of pf r = Some (Fin x) \<and> e = s + round_half_even (x * 60000000)"
  by (auto simp: session_of_def Let_def split: option.splits pyfloat.splits if_splits)

lemma day_share_Nil: "day_share strptime pf [] day h = 0"
  by (simp add: day_share_def)

lemma day_share_Cons:
  "day_share strptime pf (r # rows) day h =
     (if r ''date'' = Some day then row_share strptime pf r h else 0)
     + day_share strptime pf rows day h"
  by (simp add: day_share_def)

text \<open>One pass of the loop over the rows.\<close>

lemma hourly_row_step:
  assumes date: "r ''date'' = Some date"
    and inv: "\<forall>day \<in> set dates. \<exists>hs. map_of hbd day = Some hs \<and> length hs = 24"
    and range: "\<forall>s e. session_of strptime pf r = Some (s, e) \<longrightarrow> e \<le> DT_END - US_PER_HOUR"
  shows "\<exists>hbd'. hourly_row strptime pf dates r hbd = Inr hbd' \<and> map fst hbd' = map fst hbd
      \<and> (\<forall>day \<in> set dates. \<exists>hs'. map_of hbd' day = Some hs' \<and> length hs' = 24
            \<and> (\<forall>h < 24. hs' ! h = hours_of hbd day ! h
                  + (if date = day then row_share strptime pf r h else 0)))"
proof -
  have keep: "\<forall>day \<in> set dates. \<exists>hs'. map_of hbd day = Some hs' \<and> length hs' = 24
            \<and> (\<forall>h < 24. hs' ! h = hours_of hbd day ! h
                  + (if date = day then row_share strptime pf r h else 0))"
    if "date \<notin> set dates \<or> (\<forall>h. row_share strptime pf r h = 0)"
  proof
    fix day assume d: "day \<in> set dates"
    then obtain hs where hs: "map_of hbd day = Some hs" "length hs = 24"
      using inv by blast
    have "(if date = day then row_share strptime pf r h else 0) = 0" for h
      using that d by auto
    then show "\<exists>hs'. map_of hbd day = Some hs' \<and> length hs' = 24
            \<and> (\<forall>h < 24. hs' ! h = hours_of hbd day ! h
                  + (if date = day then row_share strptime pf r h else 0))"
      using hs by (simp add: hours_of_def)
  qed
  show ?thesis
  proof (cases "date \<in> set dates")
    case False
    then have "hourly_row strptime pf dates r hbd = Inr hbd"
      using date by (simp add: hourly_row_def getitem_def)
    then show ?thesis using keep False by simp
  next
    case True
    show ?thesis
    proof (cases "session_of strptime pf r")
      case None
      then obtain e where "read_session strptime pf r = Inl e"
        using read_session_malformed by blast
      then have "hourly_row strptime pf dates r hbd = Inr hbd"
        using date True by (simp add: hourly_row_def getitem_def)
      moreover have "\<forall>h. row_share strptime pf r h = 0"
        using None by (simp add: row_share_def)
      ultimately show ?thesis using keep by simp
    next
      case (Some se)
      obtain s e where se: "se = (s, e)" by (cases se)
      have rs: "read_session strptime pf r = Inr (s, e)"
        using read_session_well_formed [OF Some] se by simp
      have rg: "e \<le> DT_END - US_PER_HOUR"
        using range Some se by simp
      let ?f = "\<lambda>hours. fst (slice_loop s e hours)"
      let ?hbd = "dict_map_at date ?f hbd"
      have run: "hourly_row strptime pf dates r hbd = Inr ?hbd"
        using date True rs by (simp add: hourly_row_def getitem_def)
      have sh: "row_share strptime pf r h = hour_share s e h" for h
        using Some se by (simp add: row_share_def)
      have "\<exists>hs'. map_of ?hbd day = Some hs' \<and> length hs' = 24
            \<and> (\<forall>h < 24. hs' ! h = hours_of hbd day ! h
                  + (if date = day then row_share strptime pf r h else 0))"
        if d: "day \<in> set dates" for day
      proof -
        obtain hs where hs: "map_of hbd day = Some hs" "length hs = 24"
          using inv d by blast
        show ?thesis
        proof (cases "date = day")
          case True
          have "map_of ?hbd day = Some (?f hs)"
            using hs True by (simp add: map_of_dict_map_at)
          moreover have "length (?f hs) = 24
              \<and> (\<forall>h < 24. ?f hs ! h = hs ! h + hour_share s e h)"
            using slice_loop_shares [OF hs(2) rg, of s] by simp
          ultimately show ?thesis
            using True hs sh by (simp add: hours_of_def)
        next
          case False
          then have "map_of ?hbd day = Some hs"
            using hs by (simp add: map_of_dict_map_at)
          then show ?thesis
            using False hs by (simp add: hours_of_def)
        qed
      qed
      then show ?thesis
        using run map_fst_dict_map_at [of date ?f hbd] by simp
    qed
  qed
qed

text \<open>The whole loop: every row of the file is credited to the buckets of its date.\<close>

lemma hourly_rows_credit:
  assumes "\<forall>r \<in> set rows. r ''date'' \<noteq> None"
    and "\<forall>r \<in> set rows. \<forall>s e. session_of strptime pf r = Some (s, e)
            \<longrightarrow> e \<le> DT_END - US_PER_HOUR"
    and "\<forall>day \<in> set dates. \<exists>hs. map_of hbd day = Some hs \<and> length hs = 24"
  shows "\<exists>hbd'. hourly_rows strptime pf dates rows hbd = Inr hbd'
      \<and> map fst hbd' = map fst hbd
      \<and> (\<forall>day \<in> set dates. length (hours_of hbd' day) = 24
            \<and> (\<forall>h < 24. hours_of hbd' day ! h
                  = hours_of hbd day ! h + day_share strptime pf rows day h))"
  using assms
proof (induction rows arbitrary: hbd)
  case Nil
  have "length (hours_of hbd day) = 24" if "day \<in> set dates" for day
    using Nil(3) that by (auto simp: hours_of_def)
  then show ?case by (simp add: day_share_Nil)
next
  case (Cons r rows)
  obtain date where date: "r ''date'' = Some date"
    using Cons.prems(1) by auto
  have range: "\<forall>s e. session_of strptime pf r = Some (s, e) \<longrightarrow> e \<le> DT_END - US_PER_HOUR"
    using Cons.prems(2) by simp
  obtain hbd1 where one: "hourly_row strptime pf dates r hbd = Inr hbd1"
    "map fst hbd1 = map fst hbd"
    "\<forall>day \<in> set dates. \<exists>hs'. map_of hbd1 day = Some hs' \<and> length hs' = 24
        \<and> (\<forall>h < 24. hs' ! h = hours_of hbd day ! h
              + (if date = day then row_share strptime pf r h else 0))"
    using hourly_row_step [OF date Cons.prems(3) range] by blast
  have inv1: "\<forall>day \<in> set dates. \<exists>hs. map_of hbd1 day = Some hs \<and> length hs = 24"
    using one(3) by blast
  have step: "hours_of hbd1 day ! h = hours_of hbd day ! h
        + (if r ''date'' = Some day then row_share strptime pf r h else 0)"
    if "day \<in> set dates" "h < 24" for day h
    using one(3) that date by (auto simp: hours_of_def)
  obtain hbd2 where rest: "hourly_rows strptime pf dates rows hbd1 = Inr hbd2"
    "map fst hbd2 = map fst hbd1"
    "\<forall>day \<in> set dates. length (hours_of hbd2 day) = 24
        \<and> (\<forall>h < 24. hours_of hbd2 day ! h
              = hours_of hbd1 day ! h + day_share strptime pf rows day h)"
    using Cons.IH [OF _ _ inv1] Cons.prems(1,2) by auto
  have "hourly_rows strptime pf dates (r # rows) hbd = Inr hbd2"
    using one(1) rest(1) by simp
  moreover have "map fst hbd2 = map fst hbd"
    using one(2) rest(2) by simp
  moreover have "\<forall>day \<in> set dates. length (hours_of hbd2 day) = 24
        \<and> (\<forall>h < 24. hours_of hbd2 day ! h
              = hours_of hbd day ! h + day_share strptime pf (r # rows) day h)"
    using rest(3) step by (simp add: day_share_Cons)
  ultimately show ?case by blast
qed

text \<open>The dates considered are the greatest keys of the data, at most seven.\<close>

lemma last_7_dates_greatest:
  assumes "distinct (map fst data)" "None \<notin> fst ` set data"
  shows "\<exists>dates. last_7_dates data = Inr dates \<and> sorted dates \<and> distinct dates
      \<and> set dates \<subseteq> fst ` set data \<and> length dates = min 7 (length data)
      \<and> (\<forall>k \<in> fst ` set data - set dates. \<forall>d \<in> set dates. k < d)"
proof -
  define xs where "xs = sort (map fst data)"
  define n where "n = length xs - 7"
  have run: "last_7_dates data = Inr (drop n xs)"
    using assms(2) by (simp add: last_7_dates_def xs_def n_def Let_def)
  have s: "sorted xs" "distinct xs" "set xs = fst ` set data" "length xs = length data"
    using assms(1) by (simp_all add: xs_def)
  have parts: "set xs = set (take n xs) \<union> set (drop n xs)"
    using set_append [of "take n xs" "drop n xs"] by simp
  have lt: "k < d" if "k \<in> set (take n xs)" "d \<in> set (drop n xs)" for k d
  proof -
    have "sorted (take n xs @ drop n xs)" using s(1) by simp
    then have "k \<le> d" using that unfolding sorted_append by blast
    moreover have "distinct (take n xs @ drop n xs)" using s(2) by simp
    then have "k \<noteq> d" using that unfolding distinct_append by blast
    ultimately show ?thesis by simp
  qed
  have "sorted (drop n xs)" using s(1) by (rule sorted_wrt_drop)
  moreover have "distinct (drop n xs)" using s(2) by simp
  moreover have "set (drop n xs) \<subseteq> fst ` set data"
    using set_drop_subset [of n xs] s(3) by simp
  moreover have "length (drop n xs) = min 7 (length data)"
    using s(4) by (simp add: n_def)
  moreover have "\<forall>k \<in> fst ` set data - set (drop n xs). \<forall>d \<in> set (drop n xs). k < d"
    using lt parts s(3) by blast
  ultimately show ?thesis using run by blast
qed

lemma map_of_buckets:
  "day \<in> set dates \<Longrightarrow> map_of (map (\<lambda>date. (date, replicate 24 (0::real))) dates) day
     = Some (replicate 24 0)"
  by (induction dates) auto

text \<open>
  C1, as the code has it, for the whole log.  Let the keys of the data be dates (texts),
  let the log have a date column, and let no session end in the last hour that a
  \<^verbatim>\<open>datetime\<close> can hold.  Then the function gets through, and

  \<^item> the dates considered, which are the dates of the lines it plots, are the greatest keys
    of the data in ascending order, seven of them or all when there are fewer;
  \<^item> the bucket of every such date and every hour of the day holds the sum, over all
    rows of the log with that date, of the minutes of the row's session that lie in that
    hour of the day (of whatever day: a session that runs past midnight is credited to
    the date of its row), a row without a well-formed session counting for nothing;
  \<^item> the average line at each hour is the sum of the buckets of the dates considered
    divided by their number;
  \<^item> the shares of one well-formed session in the twenty-four hours add up to the length
    of the session when it ends after it starts, and to nothing otherwise; the length is
    the minutes of the row when these are a whole number of microseconds, as the numbers
    with two decimals are that the program writes.
\<close>

theorem hourly_bucketing:
  assumes "distinct (map fst data)" and "None \<notin> fst ` set data"
    and "\<forall>r \<in> set (DictReader recs). r ''date'' \<noteq> None"
    and "\<forall>r \<in> set (DictReader recs). \<forall>s e. session_of strptime pf r = Some (s, e)
            \<longrightarrow> e \<le> DT_END - US_PER_HOUR"
  shows "\<exists>hourly_by_day hourly_totals dates.
      plot_hourly_productivity_multiline strptime pf data (Some recs)
        = Inr (hourly_by_day, hourly_totals)
      \<and> map fst hourly_by_day = dates
      \<and> sorted dates \<and> distinct dates \<and> set dates \<subseteq> fst ` set data
      \<and> length dates = min 7 (length data)
      \<and> (\<forall>k \<in> fst ` set data - set dates. \<forall>d \<in> set dates. k < d)
      \<and> (\<forall>day \<in> set dates. length (hours_of hourly_by_day day) = 24
            \<and> (\<forall>h < 24. hours_of hourly_by_day day ! h
                  = day_share strptime pf (DictReader recs) day h))
      \<and> length hourly_totals = 24
      \<and> (\<forall>h < 24. hourly_totals ! h =
            (if dates = [] then 0
             else (\<Sum>day\<leftarrow>dates. hours_of hourly_by_day day ! h) / real (length dates)))
      \<and> (\<forall>r \<in> set (DictReader recs). \<forall>s e. session_of strptime pf r = Some (s, e) \<longrightarrow>
            (\<Sum>h = 0..<24. row_share strptime pf r h)
              = (if s \<le> e then real_of_int (e - s) / 60000000 else 0)
            \<and> (\<forall>x. minutes_of pf r = Some (Fin x) \<and> x * 60000000 \<in> \<int>
                  \<longrightarrow> real_of_int (e - s) / 60000000 = x))"
proof -
  obtain dates where d: "last_7_dates data = Inr dates" "sorted dates" "distinct dates"
    "set dates \<subseteq> fst ` set data" "length dates = min 7 (length data)"
    "\<forall>k \<in> fst ` set data - set dates. \<forall>d \<in> set dates. k < d"
    using last_7_dates_greatest [OF assms(1,2)] by blast
  let ?hbd0 = "map (\<lambda>date. (date, replicate 24 (0::real))) dates"
  have inv0: "\<forall>day \<in> set dates. \<exists>hs. map_of ?hbd0 day = Some hs \<and> length hs = 24"
    by (simp add: map_of_buckets)
  have zero: "hours_of ?hbd0 day ! h = 0" if "day \<in> set dates" "h < 24" for day h
    using that by (simp add: hours_of_def map_of_buckets)
  obtain hbd where rows: "hourly_rows strptime pf dates (DictReader recs) ?hbd0 = Inr hbd"
    "map fst hbd = map fst ?hbd0"
    "\<forall>day \<in> set dates. length (hours_of hbd day) = 24
        \<and> (\<forall>h < 24. hours_of hbd day ! h
              = hours_of ?hbd0 day ! h + day_share strptime pf (DictReader recs) day h)"
    using hourly_rows_credit [OF assms(3,4) inv0] by blast
  let ?totals = "map (hourly_total dates hbd) [0..<24]"
  have run: "plot_hourly_productivity_multiline strptime pf data (Some recs) = Inr (hbd, ?totals)"
    by (simp add: plot_hourly_productivity_multiline_def d(1) rows(1))
  have keys: "map fst hbd = dates"
    using rows(2) by (simp add: comp_def)
  have buckets: "\<forall>day \<in> set dates. length (hours_of hbd day) = 24
        \<and> (\<forall>h < 24. hours_of hbd day ! h = day_share strptime pf (DictReader recs) day h)"
    using rows(3) zero by simp
  have avg: "\<forall>h < 24. ?totals ! h =
            (if dates = [] then 0
             else (\<Sum>day\<leftarrow>dates. hours_of hbd day ! h) / real (length dates))"
    by (simp add: hourly_total_def)
  have sess: "(\<Sum>h = 0..<24. row_share strptime pf r h)
              = (if s \<le> e then real_of_int (e - s) / 60000000 else 0)
            \<and> (\<forall>x. minutes_of pf r = Some (Fin x) \<and> x * 60000000 \<in> \<int>
                  \<longrightarrow> real_of_int (e - s) / 60000000 = x)"
    if r: "r \<in> set (DictReader recs)" and se: "session_of strptime pf r = Some (s, e)" for r s e
  proof -
    have sh: "row_share strptime pf r h = hour_share s e h" for h
      using se by (simp add: row_share_def)
    have rg: "e \<le> DT_END - US_PER_HOUR"
      using assms(4) r se by blast
    have "(\<Sum>h = 0..<24. hour_share s e h)
        = (if s \<le> e then real_of_int (e - s) / 60000000 else 0)"
    proof (cases "s \<le> e")
      case True
      then show ?thesis using hour_share_total [OF True rg] by simp
    next
      case False
      then have "hour_share s e h = 0" for h by (simp add: hour_share_empty)
      then show ?thesis using False by simp
    qed
    moreover have "real_of_int (e - s) / 60000000 = x"
      if "minutes_of pf r = Some (Fin x)" "x * 60000000 \<in> \<int>" for x
    proof -
      obtain x' where "minutes_of pf r = Some (Fin x')"
        "e = s + round_half_even (x' * 60000000)"
        using session_of_minutes [OF se] by blast
      then have "e - s = round_half_even (x * 60000000)" using that(1) by simp
      then show ?thesis using round_half_even_int [OF that(2)] by simp
    qed
    ultimately show ?thesis by (simp add: sh)
  qed
  show ?thesis
    using run keys d(2-6) buckets avg sess by (intro exI [of _ hbd] exI [of _ ?totals] exI [of _ dates]) simp
qed

lemmas eval_strptime = strptime_fixed_def field_val_def instant_def days_before_year_def
  days_before_month_def days_in_month_def is_leap_def digit_val_def

lemma strptime_samples:
  "strptime_fixed ''2024-05-01 10:30:00'' = Some 63850156200000000"
  "strptime_fixed ''2024-05-01 11:15:00'' = Some 63850158900000000"
  "strptime_fixed ''2024-05-02 23:30:00'' = Some 63850289400000000"
  "strptime_fixed ''2024-05-02 09:00:00'' = Some 63850237200000000"
  "strptime_fixed ''2024-05-02 noon'' = None"
  by (simp_all add: eval_strptime)

lemmas eval_session = session_of_def minutes_of_def dict_row_def LOG_HEADER_def fmt_cell_def
  float_dec_def unsigned_dec_def digit_val_def round_half_even_def DT_END_def

lemma session_samples:
  "session_of strptime_fixed float_dec
      (dict_row LOG_HEADER [''2024-05-01'', ''10:30:00'', ''Math'', ''90''])
     = Some (63850156200000000, 63850161600000000)"
  "session_of strptime_fixed float_dec
      (dict_row LOG_HEADER [''2024-05-01'', ''11:15:00'', ''Physics'', ''30''])
     = Some (63850158900000000, 63850160700000000)"
  "session_of strptime_fixed float_dec
      (dict_row LOG_HEADER [''2024-05-02'', ''23:30:00'', ''Math'', ''60''])
     = Some (63850289400000000, 63850293000000000)"
  "session_of strptime_fixed float_dec
      (dict_row LOG_HEADER [''2024-05-02'', ''noon'', ''Math'', ''15'']) = None"
  "session_of strptime_fixed float_dec
      (dict_row LOG_HEADER [''2024-05-02'', ''09:00:00'', ''Math'', ''-5''])
     = Some (63850237200000000, 63850236900000000)"
  "session_of strptime_fixed float_dec negative_row
     = Some (63850156200000000, 63850155900000000)"
  by (simp_all add: negative_row_def eval_session strptime_samples)

lemma date_samples:
  "dict_row LOG_HEADER [''2024-05-01'', t, s, m] ''date'' = Some (Some ''2024-05-01'')"
  "dict_row LOG_HEADER [''2024-05-02'', t, s, m] ''date'' = Some (Some ''2024-05-02'')"
  by (simp_all add: dict_row_def LOG_HEADER_def)

lemma share_samples:
  "hour_share 63850156200000000 63850161600000000 0 = 0"
  "hour_share 63850156200000000 63850161600000000 10 = 30"
  "hour_share 63850156200000000 63850161600000000 11 = 60"
  "hour_share 63850158900000000 63850160700000000 0 = 0"
  "hour_share 63850158900000000 63850160700000000 10 = 0"
  "hour_share 63850158900000000 63850160700000000 11 = 30"
  "hour_share 63850289400000000 63850293000000000 0 = 30"
  "hour_share 63850289400000000 63850293000000000 11 = 0"
  "hour_share 63850289400000000 63850293000000000 23 = 30"
  "hour_share 63850237200000000 63850236900000000 h = 0"
  by (simp_all add: hour_share_def hour_overlap_step hour_overlap_empty)

text \<open>
  C1, as stated, fails on a well-formed row with negative minutes, which the program
  itself writes when a session is started with a negative duration: every field parses,
  the date is among those considered, yet the slicing loop does not run and nothing is
  credited, so the slices do not add up to the minutes of the row.
\<close>

theorem negative_session_not_credited:
  "getitem negative_row ''date'' = Inr (Some ''2024-05-01'')
   \<and> minutes_of float_dec negative_row = Some (Fin (- 5))
   \<and> read_session strptime_fixed float_dec negative_row
       = Inr (63850156200000000, 63850155900000000)
   \<and> hourly_row strptime_fixed float_dec [Some ''2024-05-01''] negative_row
         [(Some ''2024-05-01'', replicate 24 0)]
       = Inr [(Some ''2024-05-01'', replicate 24 0)]
   \<and> sum_list (replicate 24 (0::real)) \<noteq> - 5"
proof -
  have "slice_loop 63850156200000000 63850155900000000 hours = (hours, None)" for hours
    by (subst slice_loop.simps) simp
  moreover have "getitem negative_row ''date'' = Inr (Some ''2024-05-01'')"
    by (simp add: negative_row_def getitem_def date_samples)
  moreover have "minutes_of float_dec negative_row = Some (Fin (- 5))"
    by (simp add: negative_row_def eval_session)
  moreover note read_session_well_formed [OF session_samples(6)]
  ultimately show ?thesis
    by (simp add: hourly_row_def sum_list_replicate)
qed

lemma two_dates:
  fixes a b :: "'a::linorder"
  assumes "sorted ds" "distinct ds" "length ds = 2" "set ds \<subseteq> {a, b}" "a < b"
  shows "ds = [a, b]"
proof -
  obtain x y where xy: "ds = [x, y]"
    using assms(3) by (auto simp: numeral_2_eq_2 length_Suc_conv)
  then show ?thesis using assms by auto
qed

lemma two_day_data:
  "get_weekly_data float_dec (Some two_day_log) =
     [(Some ''2024-05-01'', [(Some ''Math'', 90), (Some ''Physics'', 30)]),
      (Some ''2024-05-02'', [(Some ''Math'', 70)])]"
  by (simp add: two_day_log_def get_weekly_data_def eval_rows)

lemma two_day_order: "Some ''2024-05-01'' < Some ''2024-05-02''"
  by code_simp

text \<open>
  A log of two days.  On the first, ninety minutes from 10:30 and thirty from 11:15:
  thirty minutes in hour 10 and ninety in hour 11.  On the second, an hour from 23:30,
  half of it in hour 23 and half in hour 0, a row whose timestamp is none and a session
  of minus five minutes from 9:00, which leave nothing.  The average line is half the sum
  of the two days.
\<close>

theorem hourly_bucketing_witness:
  "\<exists>hbd totals.
     plot_hourly_productivity_multiline strptime_fixed float_dec
        (get_weekly_data float_dec (Some two_day_log)) (Some two_day_log) = Inr (hbd, totals)
     \<and> map fst hbd = [Some ''2024-05-01'', Some ''2024-05-02'']
     \<and> hours_of hbd (Some ''2024-05-01'') ! 10 = 30
     \<and> hours_of hbd (Some ''2024-05-01'') ! 11 = 90
     \<and> hours_of hbd (Some ''2024-05-02'') ! 23 = 30
     \<and> hours_of hbd (Some ''2024-05-02'') ! 0 = 30
     \<and> hours_of hbd (Some ''2024-05-02'') ! 11 = 0
     \<and> totals ! 11 = 45 \<and> totals ! 0 = 15"
proof -
  let ?d1 = "Some ''2024-05-01''" and ?d2 = "Some ''2024-05-02''"
  let ?data = "get_weekly_data float_dec (Some two_day_log)"
  let ?r1 = "dict_row LOG_HEADER [''2024-05-01'', ''10:30:00'', ''Math'', ''90'']"
  let ?r2 = "dict_row LOG_HEADER [''2024-05-01'', ''11:15:00'', ''Physics'', ''30'']"
  let ?r3 = "dict_row LOG_HEADER [''2024-05-02'', ''23:30:00'', ''Math'', ''60'']"
  let ?r4 = "dict_row LOG_HEADER [''2024-05-02'', ''noon'', ''Math'', ''15'']"
  let ?r5 = "dict_row LOG_HEADER [''2024-05-02'', ''09:00:00'', ''Math'', ''-5'']"
  have rows: "DictReader two_day_log = [?r1, ?r2, ?r3, ?r4, ?r5]"
    by (simp add: two_day_log_def DictReader_def)
  have keys: "distinct (map fst ?data)" "None \<notin> fst ` set ?data" "fst ` set ?data = {?d1, ?d2}"
    "length ?data = 2"
    by (simp_all add: two_day_data)
  have col: "\<forall>r \<in> set (DictReader two_day_log). r ''date'' \<noteq> None"
    by (simp add: rows date_samples)
  have range: "\<forall>r \<in> set (DictReader two_day_log). \<forall>s e.
      session_of strptime_fixed float_dec r = Some (s, e) \<longrightarrow> e \<le> DT_END - US_PER_HOUR"
    by (simp add: rows session_samples DT_END_def US_PER_HOUR_def)
  obtain hbd totals dates where p:
    "plot_hourly_productivity_multiline strptime_fixed float_dec ?data (Some two_day_log)
       = Inr (hbd, totals)"
    "map fst hbd = dates" "sorted dates" "distinct dates" "set dates \<subseteq> fst ` set ?data"
    "length dates = min 7 (length ?data)"
    "\<forall>day \<in> set dates. length (hours_of hbd day) = 24
        \<and> (\<forall>h < 24. hours_of hbd day ! h
              = day_share strptime_fixed float_dec (DictReader two_day_log) day h)"
    "\<forall>h < 24. totals ! h =
        (if dates = [] then 0 else (\<Sum>day\<leftarrow>dates. hours_of hbd day ! h) / real (length dates))"
    using hourly_bucketing [OF keys(1,2) col range] by blast
  have dates: "dates = [?d1, ?d2]"
    using p(3,4,5,6) two_day_order unfolding keys(3,4) by (intro two_dates) simp_all
  have s1: "day_share strptime_fixed float_dec (DictReader two_day_log) ?d1 h
      = hour_share 63850156200000000 63850161600000000 h
        + hour_share 63850158900000000 63850160700000000 h" for h
    by (simp add: rows day_share_def row_share_def date_samples session_samples)
  have s2: "day_share strptime_fixed float_dec (DictReader two_day_log) ?d2 h
      = hour_share 63850289400000000 63850293000000000 h" for h
    by (simp add: rows day_share_def row_share_def date_samples session_samples share_samples)
  have b1: "hours_of hbd ?d1 ! h
      = hour_share 63850156200000000 63850161600000000 h
        + hour_share 63850158900000000 63850160700000000 h" if "h < 24" for h
    using p(7) that by (simp add: dates s1)
  have b2: "hours_of hbd ?d2 ! h = hour_share 63850289400000000 63850293000000000 h"
    if "h < 24" for h
    using p(7) that by (simp add: dates s2)
  have t: "totals ! h = (hours_of hbd ?d1 ! h + hours_of hbd ?d2 ! h) / 2" if "h < 24" for h
    using p(8) that by (simp add: dates)
  have "hours_of hbd ?d1 ! 10 = 30" "hours_of hbd ?d1 ! 11 = 90" "hours_of hbd ?d1 ! 0 = 0"
    "hours_of hbd ?d2 ! 23 = 30" "hours_of hbd ?d2 ! 0 = 30" "hours_of hbd ?d2 ! 11 = 0"
    by (simp_all add: b1 b2 share_samples)
  moreover from this have "totals ! 11 = 45" "totals ! 0 = 15"
    by (simp_all add: t)
  ultimately show ?thesis
    using p(1,2) dates by (intro exI [of _ hbd] exI [of _ totals]) simp
qed

end
